theory Spec2Isabelle
  imports Complex_Main "HOL-Library.Char_ord" "HOL-Library.List_Lexorder"
begin

section \<open>The Python runtime the analyzer relies on\<close>

text \<open>
  Python strings are modelled as HOL strings: lists of 8-bit characters, read as the
  code points U+0000 to U+00FF. Case conversion, whitespace and line boundaries follow
  CPython on these code points. Python integers are \<open>int\<close>.
\<close>

datatype py_error = TypeError | AttributeError | JSONDecodeError

subsection \<open>str methods\<close>

definition lower_char :: "char \<Rightarrow> char" where
  "lower_char c =
     (let n = (of_char c :: nat)
      in if (65 \<le> n \<and> n \<le> 90) \<or> (192 \<le> n \<and> n \<le> 222 \<and> n \<noteq> 215)
         then char_of (n + 32) else c)"

definition lower :: "string \<Rightarrow> string" where
  "lower s = map lower_char s"

definition is_space :: "char \<Rightarrow> bool" where
  "is_space c =
     (let n = (of_char c :: nat)
      in (9 \<le> n \<and> n \<le> 13) \<or> (28 \<le> n \<and> n \<le> 32) \<or> n = 133 \<or> n = 160)"

definition lstrip :: "string \<Rightarrow> string" where
  "lstrip s = dropWhile is_space s"

definition rstrip :: "string \<Rightarrow> string" where
  "rstrip s = rev (dropWhile is_space (rev s))"

definition strip :: "string \<Rightarrow> string" where
  "strip s = rstrip (lstrip s)"

definition startswith :: "string \<Rightarrow> string \<Rightarrow> bool" where
  "startswith s p = (take (length p) s = p)"

definition endswith :: "string \<Rightarrow> string \<Rightarrow> bool" where
  "endswith s p = (length p \<le> length s \<and> drop (length s - length p) s = p)"

text \<open>\<open>sub in s\<close> for strings.\<close>

fun str_contains :: "string \<Rightarrow> string \<Rightarrow> bool" where
  "str_contains sub [] = (sub = [])"
| "str_contains sub (c # cs) = (startswith (c # cs) sub \<or> str_contains sub cs)"

text \<open>\<open>s.split(sep)\<close> for a one-character separator.\<close>

fun split_on :: "char \<Rightarrow> string \<Rightarrow> string list" where
  "split_on sep [] = [[]]"
| "split_on sep (c # cs) =
     (case split_on sep cs of
        [] \<Rightarrow> (if c = sep then [[], []] else [[c]])
      | w # ws \<Rightarrow> (if c = sep then [] # w # ws else (c # w) # ws))"

definition is_linebreak :: "char \<Rightarrow> bool" where
  "is_linebreak c =
     (let n = (of_char c :: nat)
      in n = 10 \<or> n = 11 \<or> n = 12 \<or> n = 13 \<or> n = 28 \<or> n = 29 \<or> n = 30 \<or> n = 133)"

text \<open>
  \<open>s.splitlines()\<close>: the lines without their terminators; \<open>\r\n\<close> is one terminator and a
  final terminator opens no further line. The first argument is the line read so far.
\<close>

fun splitlines_from :: "string \<Rightarrow> string \<Rightarrow> string list" where
  "splitlines_from cur [] = (if cur = [] then [] else [cur])"
| "splitlines_from cur [c] =
     (if is_linebreak c then [cur] else [cur @ [c]])"
| "splitlines_from cur (c # d # cs) =
     (if c = CHR 0x0D \<and> d = CHR 0x0A then cur # splitlines_from [] cs
      else if is_linebreak c then cur # splitlines_from [] (d # cs)
      else splitlines_from (cur @ [c]) (d # cs))"

definition splitlines :: "string \<Rightarrow> string list" where
  "splitlines s = splitlines_from [] s"

subsection \<open>pathlib on a POSIX host\<close>

text \<open>
  \<open>Path(p).parts\<close>: the components between slashes, without empty components and
  without \<open>.\<close>; an absolute path has its root as first part (two leading slashes,
  and only two, are kept as the root \<open>//\<close>).
\<close>

definition path_components :: "string \<Rightarrow> string list" where
  "path_components p = filter (\<lambda>c. c \<noteq> [] \<and> c \<noteq> ''.'') (split_on CHR ''/'' p)"

definition path_root :: "string \<Rightarrow> string list" where
  "path_root p =
     (if startswith p ''//'' \<and> \<not> startswith p ''///'' then [''//'']
      else if startswith p ''/'' then [''/'']
      else [])"

definition path_parts :: "string \<Rightarrow> string list" where
  "path_parts p = path_root p @ path_components p"

definition path_name :: "string \<Rightarrow> string" where
  "path_name p = (case path_components p of [] \<Rightarrow> [] | c # cs \<Rightarrow> last (c # cs))"

text \<open>\<open>name.rfind('.')\<close>: the index of the last dot, if there is one.\<close>

definition rfind_dot :: "string \<Rightarrow> nat option" where
  "rfind_dot s =
     (case filter (\<lambda>i. s ! i = CHR ''.'') (rev [0..<length s]) of
        [] \<Rightarrow> None | i # _ \<Rightarrow> Some i)"

definition path_suffix :: "string \<Rightarrow> string" where
  "path_suffix p =
     (let name = path_name p
      in case rfind_dot name of
           None \<Rightarrow> []
         | Some i \<Rightarrow> (if 0 < i \<and> i < length name - 1 then drop i name else []))"

definition path_suffixes :: "string \<Rightarrow> string list" where
  "path_suffixes p =
     (let name = path_name p
      in if endswith name ''.'' then []
         else map (\<lambda>s. CHR ''.'' # s)
                (tl (split_on CHR ''.'' (dropWhile (\<lambda>c. c = CHR ''.'') name))))"

subsection \<open>re and json\<close>

text \<open>
  The regular-expression engine and the JSON parser are Python's own, not code of the
  analyzer: the model takes them as a parameter and every property below holds for any
  engine. Patterns are the source's raw strings; a HOL string literal cannot hold a
  backslash, so \<open>rx\<close> writes one as \<open>~\<close> (no pattern of the source holds a tilde).

  \<^item> \<open>re_search rt pattern flags s\<close> is \<open>re.search\<close>: \<open>None\<close>, or the groups of the first
    match, group 0 first.
  \<^item> \<open>re_findall rt pattern flags s\<close> is \<open>re.findall\<close>: one entry per match, holding the
    match (a pattern without groups) or its groups.
  \<^item> \<open>json_loads rt s\<close> is \<open>json.loads\<close>; \<open>None\<close> stands for \<open>JSONDecodeError\<close>. The keys of
    an object are distinct.
\<close>

definition rx :: "string \<Rightarrow> string" where
  "rx p = map (\<lambda>c. if c = CHR ''~'' then CHR 0x5C else c) p"

datatype re_flag = IGNORECASE | MULTILINE | DOTALL

datatype json =
  JObject "(string \<times> json) list" | JArray "json list" | JString string
  | JNumber | JBool bool | JNull

record runtime =
  re_search :: "string \<Rightarrow> re_flag list \<Rightarrow> string \<Rightarrow> string list option"
  re_findall :: "string \<Rightarrow> re_flag list \<Rightarrow> string \<Rightarrow> string list list"
  json_loads :: "string \<Rightarrow> json option"

text \<open>\<open>match.group(k)\<close> of a match that has the group.\<close>

definition group :: "string list \<Rightarrow> nat \<Rightarrow> string" where
  "group m k = (if k < length m then m ! k else [])"

subsection \<open>Numbers\<close>

text \<open>
  Python floats are idealised as exact rationals: \<open>/\<close>, \<open>*\<close> and \<open>+\<close> do not round.
  \<open>round(x, n)\<close> rounds to \<open>n\<close> decimals, ties to even; \<open>int(x)\<close> truncates.
\<close>

definition round_half_even :: "rat \<Rightarrow> int" where
  "round_half_even x =
     (let f = \<lfloor>x\<rfloor>; d = x - of_int f
      in if d < 1 / 2 then f
         else if 1 / 2 < d then f + 1
         else if even f then f else f + 1)"

definition py_round :: "rat \<Rightarrow> nat \<Rightarrow> rat" where
  "py_round x ndigits = of_int (round_half_even (x * 10 ^ ndigits)) / 10 ^ ndigits"

definition py_int :: "rat \<Rightarrow> int" where
  "py_int x = (if 0 \<le> x then \<lfloor>x\<rfloor> else \<lceil>x\<rceil>)"

section \<open>config.py: Config\<close>

definition MAX_FILE_SIZE :: int where
  "MAX_FILE_SIZE = 10 * 1024 * 1024"

definition MAX_REPOSITORY_SIZE :: int where
  "MAX_REPOSITORY_SIZE = 500 * 1024 * 1024"

definition MAX_FILES_COUNT :: int where
  "MAX_FILES_COUNT = 10000"

definition MAX_TOTAL_SIZE_BYTES :: int where
  "MAX_TOTAL_SIZE_BYTES = MAX_REPOSITORY_SIZE"

text \<open>The tables are association lists in the order of the source's dict literals.\<close>

definition SPECIAL_FILES :: "(string \<times> string) list" where
  "SPECIAL_FILES =
    [(''dockerfile'', ''dockerfile''), (''dockerfile.dev'', ''dockerfile''),
     (''dockerfile.prod'', ''dockerfile''), (''dockerfile.test'', ''dockerfile''),
     (''.dockerignore'', ''config''), (''docker-compose.yml'', ''config''),
     (''docker-compose.yaml'', ''config''),
     (''makefile'', ''config''), (''cmake'', ''config''), (''cmakelists.txt'', ''config''),
     (''build.gradle'', ''java''), (''build.gradle.kts'', ''kotlin''), (''pom.xml'', ''java''),
     (''cargo.toml'', ''rust''), (''cargo.lock'', ''rust''),
     (''package.json'', ''javascript''), (''package-lock.json'', ''javascript''),
     (''yarn.lock'', ''javascript''), (''requirements.txt'', ''python''),
     (''pipfile'', ''python''), (''pipfile.lock'', ''python''), (''setup.py'', ''python''),
     (''setup.cfg'', ''python''), (''pyproject.toml'', ''python''),
     (''poetry.lock'', ''python''), (''gemfile'', ''ruby''), (''gemfile.lock'', ''ruby''),
     (''composer.json'', ''php''), (''composer.lock'', ''php''), (''go.mod'', ''go''),
     (''go.sum'', ''go''),
     (''jenkinsfile'', ''config''), (''vagrantfile'', ''config''), (''.travis.yml'', ''config''),
     (''.github'', ''config''), (''appveyor.yml'', ''config''), (''circle.yml'', ''config''),
     (''azure-pipelines.yml'', ''config''),
     (''webpack.config.js'', ''javascript''), (''rollup.config.js'', ''javascript''),
     (''babel.config.js'', ''javascript''), (''jest.config.js'', ''javascript''),
     (''tsconfig.json'', ''typescript''), (''tslint.json'', ''typescript''),
     (''eslint.json'', ''javascript''), (''.eslintrc'', ''config''),
     (''.eslintrc.js'', ''javascript''), (''.eslintrc.json'', ''config''),
     (''.prettierrc'', ''config''), (''.editorconfig'', ''config''),
     (''license'', ''text''), (''licence'', ''text''), (''readme'', ''markdown''),
     (''readme.md'', ''markdown''), (''readme.txt'', ''text''), (''changelog'', ''text''),
     (''changelog.md'', ''markdown''), (''changes'', ''text''), (''authors'', ''text''),
     (''contributors'', ''text'')]"

definition MULTI_PART_EXTENSIONS :: "(string \<times> string) list" where
  "MULTI_PART_EXTENSIONS =
    [(''.tar.gz'', ''binary''), (''.tar.bz2'', ''binary''), (''.tar.xz'', ''binary''),
     (''.tar.Z'', ''binary''),
     (''.backup'', ''binary''), (''.bak'', ''binary''), (''.old'', ''binary''),
     (''.orig'', ''binary''),
     (''.sample'', ''config''), (''.template'', ''config''), (''.example'', ''config''),
     (''.gitkeep'', ''config''), (''.gitattributes'', ''config''), (''.gitignore'', ''config''),
     (''.gitmodules'', ''config'')]"

definition SUPPORTED_EXTENSIONS :: "(string \<times> string list) list" where
  "SUPPORTED_EXTENSIONS =
    [(''python'', [''.py'', ''.pyx'', ''.pyi'', ''.pyw'']),
     (''javascript'', [''.js'', ''.jsx'', ''.mjs'', ''.cjs'']),
     (''typescript'', [''.ts'', ''.tsx'', ''.d.ts'']),
     (''java'', [''.java'']),
     (''kotlin'', [''.kt'', ''.kts'']),
     (''scala'', [''.scala'']),
     (''cpp'', [''.cpp'', ''.cxx'', ''.cc'', ''.c'', ''.hpp'', ''.h'', ''.hxx'']),
     (''csharp'', [''.cs'', ''.csx'']),
     (''go'', [''.go'']),
     (''rust'', [''.rs'']),
     (''php'', [''.php'', ''.phtml'', ''.php3'', ''.php4'', ''.php5'', ''.phps'']),
     (''ruby'', [''.rb'', ''.rbw'', ''.rake'']),
     (''swift'', [''.swift'']),
     (''shell'', [''.sh'', ''.bash'', ''.zsh'', ''.fish'', ''.csh'', ''.tcsh'']),
     (''powershell'', [''.ps1'', ''.psm1'', ''.psd1'']),
     (''sql'', [''.sql'']),
     (''html'', [''.html'', ''.htm'', ''.xhtml'']),
     (''css'', [''.css'', ''.scss'', ''.sass'', ''.less'', ''.styl'']),
     (''markdown'', [''.md'', ''.markdown'', ''.mdown'', ''.mkd'']),
     (''yaml'', [''.yml'', ''.yaml'']),
     (''json'', [''.json'', ''.jsonc'', ''.json5'']),
     (''xml'', [''.xml'', ''.xsd'', ''.xsl'', ''.xslt'']),
     (''toml'', [''.toml'']),
     (''ini'', [''.ini'', ''.cfg'', ''.conf'']),
     (''dockerfile'', [''.dockerfile'']),
     (''text'', [''.txt'', ''.text'', ''.readme'']),
     (''perl'', [''.pl'', ''.pm'', ''.t'']),
     (''lua'', [''.lua'']),
     (''r'', [''.r'', ''.R'']),
     (''matlab'', [''.m'']),
     (''haskell'', [''.hs'', ''.lhs'']),
     (''erlang'', [''.erl'', ''.hrl'']),
     (''elixir'', [''.ex'', ''.exs'']),
     (''clojure'', [''.clj'', ''.cljs'', ''.cljc'']),
     (''scheme'', [''.scm'', ''.ss'']),
     (''lisp'', [''.lisp'', ''.lsp'']),
     (''fortran'', [''.f'', ''.for'', ''.f90'', ''.f95'']),
     (''pascal'', [''.pas'']),
     (''ada'', [''.adb'', ''.ads'']),
     (''dart'', [''.dart'']),
     (''julia'', [''.jl'']),
     (''nim'', [''.nim'']),
     (''crystal'', [''.cr'']),
     (''zig'', [''.zig''])]"

definition BINARY_EXTENSIONS :: "string list" where
  "BINARY_EXTENSIONS =
    [''.exe'', ''.dll'', ''.so'', ''.dylib'', ''.a'', ''.lib'', ''.o'', ''.obj'', ''.com'',
     ''.bat'', ''.cmd'', ''.msi'', ''.dmg'', ''.pkg'', ''.deb'', ''.rpm'',
     ''.zip'', ''.tar'', ''.gz'', ''.bz2'', ''.xz'', ''.7z'', ''.rar'', ''.ace'', ''.arj'',
     ''.cab'', ''.lzh'', ''.lha'', ''.sit'', ''.sea'', ''.bin'', ''.hqx'', ''.uu'',
     ''.jpg'', ''.jpeg'', ''.png'', ''.gif'', ''.bmp'', ''.svg'', ''.ico'', ''.tiff'',
     ''.tif'', ''.webp'', ''.psd'', ''.ai'', ''.eps'', ''.raw'', ''.cr2'', ''.nef'',
     ''.orf'', ''.sr2'',
     ''.mp3'', ''.mp4'', ''.avi'', ''.mov'', ''.wmv'', ''.flv'', ''.mkv'', ''.webm'',
     ''.m4v'', ''.3gp'', ''.ogv'', ''.wav'', ''.flac'', ''.aac'', ''.ogg'', ''.wma'',
     ''.pdf'', ''.doc'', ''.docx'', ''.xls'', ''.xlsx'', ''.ppt'', ''.pptx'', ''.odt'',
     ''.ods'', ''.odp'', ''.rtf'', ''.pages'', ''.numbers'', ''.key'',
     ''.woff'', ''.woff2'', ''.ttf'', ''.eot'', ''.otf'', ''.pfb'', ''.pfm'',
     ''.class'', ''.jar'', ''.war'', ''.ear'', ''.pyc'', ''.pyo'', ''.pyd'', ''.node'',
     ''.so'', ''.bundle'']"

definition SKIP_FILES :: "string list" where
  "SKIP_FILES =
    [''.gitignore'', ''.gitattributes'', ''.gitmodules'', ''.gitkeep'', ''.DS_Store'',
     ''Thumbs.db'', ''desktop.ini'', ''.npmrc'', ''.yarnrc'', ''.bowerrc'', ''.travis.yml'',
     ''.appveyor.yml'', ''.circleci'', ''.gitlab-ci.yml'', ''.buildkite'', ''__pycache__'',
     ''*.pyc'', ''*.pyo'', ''*.pyd'', ''.coverage'', ''coverage.xml'', ''.nyc_output'',
     ''node_modules'', ''bower_components'', ''vendor'', ''.sass-cache'', ''.tmp'', ''.temp'',
     ''logs'', ''*.log'', ''npm-debug.log*'', ''yarn-debug.log*'', ''yarn-error.log*'']"

text \<open>
  \<open>for category, extensions in SUPPORTED_EXTENSIONS.items(): if ext in extensions: return
  category\<close>: the first category that lists the extension.
\<close>

definition category_of_extension :: "string \<Rightarrow> string option" where
  "category_of_extension ext =
     map_option fst (find (\<lambda>(category, extensions). ext \<in> set extensions) SUPPORTED_EXTENSIONS)"

text \<open>Step 2 of \<open>get_file_category\<close>: the first multi-part extension the name ends with.\<close>

definition category_of_multi_part :: "string \<Rightarrow> string option" where
  "category_of_multi_part normalized_name =
     map_option snd
       (find (\<lambda>(multi_ext, category). endswith normalized_name (lower multi_ext))
          MULTI_PART_EXTENSIONS)"

text \<open>Step 3: \<open>None\<close> when the checks on the suffixes return nothing.\<close>

definition category_by_suffixes :: "string \<Rightarrow> string option" where
  "category_by_suffixes filename =
     (let suffixes = path_suffixes filename
      in if suffixes = [] then None
         else
           let last_suffix = lower (last suffixes)
           in if last_suffix \<in> set BINARY_EXTENSIONS then Some ''binary''
              else case category_of_extension last_suffix of
                     Some category \<Rightarrow> Some category
                   | None \<Rightarrow>
                       if length suffixes > 1
                       then category_of_extension (lower (concat suffixes))
                       else None)"

text \<open>Step 4: the keyword fallback.\<close>

definition fallback_category :: "string \<Rightarrow> string" where
  "fallback_category filename_lower =
     (if list_ex (\<lambda>keyword. str_contains keyword filename_lower) [''test'', ''spec'']
      then ''text''
      else if list_ex (\<lambda>keyword. str_contains keyword filename_lower)
                [''config'', ''conf'', ''cfg'']
      then ''config''
      else if list_ex (\<lambda>keyword. str_contains keyword filename_lower)
                [''readme'', ''license'', ''changelog'']
      then ''text''
      else ''text'')"

definition get_file_category :: "string \<Rightarrow> string" where
  "get_file_category filename =
     (if filename = [] then ''unknown''
      else
        let normalized_name = strip (lower filename)
        in if normalized_name \<in> set SKIP_FILES then ''skip''
           else case map_of SPECIAL_FILES normalized_name of
                  Some category \<Rightarrow> category
                | None \<Rightarrow>
                   (case category_of_multi_part normalized_name of
                      Some category \<Rightarrow> category
                    | None \<Rightarrow>
                       (case category_by_suffixes filename of
                          Some category \<Rightarrow> category
                        | None \<Rightarrow> fallback_category normalized_name)))"

definition should_skip_file :: "string \<Rightarrow> bool" where
  "should_skip_file filename = (get_file_category filename \<in> set [''skip'', ''binary''])"

section \<open>utils.py: ValidationUtils\<close>

definition validate_file_path :: "string \<Rightarrow> bool" where
  "validate_file_path file_path =
     (if file_path = [] then False
      else if str_contains ''..'' file_path then False
      else if startswith file_path ''/'' then False
      else if length file_path > 1 \<and> file_path ! 1 = CHR '':'' then False
      else if str_contains [CHR 0x5C] file_path then False
      else if startswith file_path ''./'' \<or> str_contains ''/./'' file_path then False
      else True)"

section \<open>The file records\<close>

text \<open>
  A file record is a dict; the model keeps the keys the pipeline reads and writes. A key
  the source reads with a default (\<open>file_info.get("path", "")\<close>) holds that default when
  it is absent; \<open>priority\<close>, \<open>language\<close>, \<open>complexity\<close> and \<open>priority_breakdown\<close> are absent
  (\<open>None\<close>) until a stage sets them. The value under \<open>size\<close> is an integer or a value that
  cannot be compared with one (\<open>None\<close>, a string): comparing or adding it raises
  \<open>TypeError\<close>.
\<close>

datatype size_value = Size int | NotANumber

record file_record =
  file_path :: string
  file_content :: string
  file_size :: size_value
  file_priority :: "int option"
  file_language :: "string option"
  file_complexity :: "rat option"
  file_priority_breakdown :: "(string \<times> int) list option"

section \<open>file\_processor.py: LanguageDetector\<close>

definition code_extensions :: "string list" where
  \<open>code_extensions =
    [''.py'', ''.js'', ''.ts'', ''.tsx'', ''.jsx'', ''.java'', ''.cpp'', ''.c'', ''.h'',
     ''.hpp'', ''.cs'', ''.go'', ''.rs'', ''.php'', ''.rb'', ''.swift'', ''.kt'', ''.scala'',
     ''.clj'', ''.hs'', ''.ml'', ''.elm'', ''.dart'', ''.lua'', ''.r'', ''.m'', ''.sh'',
     ''.ps1'', ''.bat'']\<close>

definition data_extensions :: "string list" where
  \<open>data_extensions =
    [''.json'', ''.xml'', ''.yaml'', ''.yml'', ''.toml'', ''.ini'', ''.conf'', ''.cfg'',
     ''.csv'', ''.tsv'', ''.sql'', ''.log'', ''.txt'']\<close>

definition markup_extensions :: "string list" where
  \<open>markup_extensions =
    [''.html'', ''.htm'', ''.xhtml'', ''.xml'', ''.svg'', ''.md'', ''.rst'', ''.tex'']\<close>

definition extension_map :: "(string \<times> string) list" where
  \<open>extension_map =
    [(''.py'', ''python''), (''.pyx'', ''python''), (''.pyi'', ''python''),
     (''.js'', ''javascript''), (''.jsx'', ''javascript''), (''.mjs'', ''javascript''),
     (''.ts'', ''typescript''), (''.tsx'', ''typescript''), (''.java'', ''java''),
     (''.cpp'', ''cpp''), (''.cxx'', ''cpp''), (''.cc'', ''cpp''), (''.c'', ''cpp''),
     (''.hpp'', ''cpp''), (''.h'', ''cpp''), (''.hxx'', ''cpp''), (''.cs'', ''csharp''),
     (''.go'', ''go''), (''.rs'', ''rust''), (''.php'', ''php''), (''.phtml'', ''php''),
     (''.rb'', ''ruby''), (''.rake'', ''ruby''), (''.swift'', ''swift''),
     (''.kt'', ''kotlin''), (''.kts'', ''kotlin''), (''.scala'', ''scala''),
     (''.sh'', ''shell''), (''.bash'', ''shell''), (''.zsh'', ''shell''),
     (''.ps1'', ''powershell''), (''.psm1'', ''powershell''), (''.html'', ''html''),
     (''.htm'', ''html''), (''.xhtml'', ''html''), (''.css'', ''css''), (''.scss'', ''css''),
     (''.sass'', ''css''), (''.less'', ''css''), (''.json'', ''json''), (''.xml'', ''xml''),
     (''.yml'', ''yaml''), (''.yaml'', ''yaml''), (''.md'', ''markdown''),
     (''.markdown'', ''markdown''), (''.txt'', ''text''), (''.sql'', ''sql''),
     (''.dockerfile'', ''dockerfile'')]\<close>

definition detect_language_by_extension :: "string \<Rightarrow> string" where
  "detect_language_by_extension filename =
     (if filename = [] then ''unknown''
      else case map_of extension_map (lower (path_suffix filename)) of
             Some lang \<Rightarrow> lang
           | None \<Rightarrow> ''unknown'')"

definition content_patterns :: "(string \<times> string list) list" where
  \<open>content_patterns =
    [(''python'',
        [rx ''def~s+~w+~s*~('', rx ''import~s+~w+'', rx ''from~s+~w+~s+import'',
         rx ''class~s+~w+'']),
     (''javascript'',
        [rx ''function~s+~w+~s*~('', rx ''var~s+~w+~s*='', rx ''let~s+~w+~s*='',
         rx ''const~s+~w+~s*='', rx ''require~s*~('']),
     (''typescript'',
        [rx ''interface~s+~w+'', rx ''type~s+~w+~s*='', rx ''enum~s+~w+'',
         rx '':~s*(string|number|boolean)'']),
     (''java'',
        [rx ''public~s+class~s+~w+'', rx ''public~s+static~s+void~s+main'',
         rx ''import~s+java~.'']),
     (''cpp'',
        [rx ''#include~s*<~w+>'', rx ''using~s+namespace'', ''std::'',
         rx ''int~s+main~s*~('']),
     (''csharp'',
        [rx ''using~s+System'', rx ''namespace~s+~w+'', rx ''public~s+class~s+~w+'',
         rx ''Console~.WriteLine'']),
     (''go'',
        [rx ''package~s+~w+'', rx ''import~s*~('', rx ''func~s+~w+~s*~('',
         rx ''var~s+~w+~s+~w+'']),
     (''rust'',
        [rx ''fn~s+~w+~s*~('', rx ''use~s+~w+'', rx ''struct~s+~w+'', rx ''impl~s+~w+'']),
     (''php'',
        [rx ''<~?php'', rx ''~$~w+~s*='', rx ''function~s+~w+~s*~('', rx ''class~s+~w+'']),
     (''ruby'',
        [rx ''def~s+~w+'', rx ''class~s+~w+'', rx ''require~s+'', rx ''puts~s+'']),
     (''html'',
        [rx ''<[^>]+>.*</~w+>'']),
     (''css'',
        [rx ''[~w-]+~s*:~s*[^;]+~s*;'', ''@media'', rx ''~.[~w-]+~s*~{'',
         rx ''#[~w-]+~s*~{'']),
     (''json'',
        [rx ''^~s*{.*}~s*$'', rx ''^~s*~[.*~]~s*$'']),
     (''yaml'',
        [rx ''^~s*~w+~s*:'', rx ''^~s*-~s+~w+'']),
     (''xml'',
        [rx ''<~?xml'', rx ''<~w+.*?>.*</~w+>'']),
     (''sql'',
        [rx ''SELECT~s+'', rx ''INSERT~s+INTO'', rx ''UPDATE~s+'', rx ''DELETE~s+FROM'']),
     (''dockerfile'',
        [rx ''FROM~s+'', rx ''RUN~s+'', rx ''COPY~s+'', rx ''WORKDIR~s+''])]\<close>

text \<open>The score of one language: the matches of its patterns in the sample, added up.\<close>

definition pattern_score :: "runtime \<Rightarrow> string list \<Rightarrow> string \<Rightarrow> nat" where
  "pattern_score rt lang_patterns content_sample =
     sum_list (map (\<lambda>pattern. length (re_findall rt pattern [IGNORECASE, MULTILINE] content_sample))
                 lang_patterns)"

definition language_scores :: "runtime \<Rightarrow> string \<Rightarrow> (string \<times> nat) list" where
  "language_scores rt content_sample =
     filter (\<lambda>(lang, score). score > 0)
       (map (\<lambda>(lang, lang_patterns). (lang, pattern_score rt lang_patterns content_sample))
          content_patterns)"

text \<open>\<open>max(scores.items(), key=lambda x: x[1])\<close>: the first entry with the highest score.\<close>

fun max_by_score :: "(string \<times> nat) \<Rightarrow> (string \<times> nat) list \<Rightarrow> string \<times> nat" where
  "max_by_score best [] = best"
| "max_by_score best (x # xs) = max_by_score (if snd best < snd x then x else best) xs"

definition detect_language_by_content :: "runtime \<Rightarrow> string \<Rightarrow> string \<Rightarrow> string" where
  "detect_language_by_content rt content filename =
     (if content = [] then ''unknown''
      else if filename \<noteq> [] \<and> detect_language_by_extension filename \<noteq> ''unknown''
      then detect_language_by_extension filename
      else
        let content_sample = take 1000 content
        in if re_search rt ''^#!/usr/bin/env python|^#!/usr/bin/python|^#.*python'' [] content
                \<noteq> None
           then ''python''
           else if re_search rt ''^#!/bin/bash|^#!/bin/sh'' [] content \<noteq> None then ''shell''
           else if re_search rt ''^#!/usr/bin/env node'' [] content \<noteq> None then ''javascript''
           else case language_scores rt content_sample of
                  [] \<Rightarrow> ''text''
                | s # ss \<Rightarrow> fst (max_by_score s ss))"

definition complexity_indicators :: "(string \<times> string list) list" where
  \<open>complexity_indicators =
    [(''python'',
        [rx ''~bif~b'', rx ''~belse~b'', rx ''~belif~b'', rx ''~bfor~b'', rx ''~bwhile~b'',
         rx ''~btry~b'', rx ''~bexcept~b'', rx ''~bwith~b'', rx ''~bclass~b'',
         rx ''~bdef~b'']),
     (''javascript'',
        [rx ''~bif~b'', rx ''~belse~b'', rx ''~bfor~b'', rx ''~bwhile~b'', rx ''~bswitch~b'',
         rx ''~bcatch~b'', rx ''~bfunction~b'', rx ''~bclass~b'', ''=>'', rx ''~?.*:'']),
     (''typescript'',
        [rx ''~bif~b'', rx ''~belse~b'', rx ''~bfor~b'', rx ''~bwhile~b'', rx ''~bswitch~b'',
         rx ''~bcatch~b'', rx ''~bfunction~b'', rx ''~bclass~b'', ''=>'', rx ''~?.*:'']),
     (''java'',
        [rx ''~bif~b'', rx ''~belse~b'', rx ''~bfor~b'', rx ''~bwhile~b'', rx ''~bswitch~b'',
         rx ''~bcatch~b'', rx ''~bclass~b'', rx ''~bpublic~b'', rx ''~bprivate~b'']),
     (''cpp'',
        [rx ''~bif~b'', rx ''~belse~b'', rx ''~bfor~b'', rx ''~bwhile~b'', rx ''~bswitch~b'',
         rx ''~bcatch~b'', rx ''~bclass~b'', rx ''~bstruct~b'', rx ''~btemplate~b''])]\<close>

definition complexity_patterns :: "string \<Rightarrow> string list" where
  "complexity_patterns lang =
     (case map_of complexity_indicators lang of
        Some patterns \<Rightarrow> patterns
      | None \<Rightarrow> (case map_of complexity_indicators ''python'' of
                   Some patterns \<Rightarrow> patterns
                 | None \<Rightarrow> []))"

definition complexity_count :: "runtime \<Rightarrow> string \<Rightarrow> string \<Rightarrow> nat" where
  "complexity_count rt content lang =
     sum_list (map (\<lambda>pattern. length (re_findall rt pattern [IGNORECASE] content))
                 (complexity_patterns lang))"

definition calculate_complexity :: "runtime \<Rightarrow> string \<Rightarrow> string \<Rightarrow> rat" where
  "calculate_complexity rt content lang =
     (if content = [] \<or> strip content = [] then 1
      else
        let total_lines = length (splitlines content)
        in if total_lines = 0 then 1
           else
             let complexity_ratio = of_nat (complexity_count rt content lang) / of_nat total_lines;
                 base_complexity = 1 + complexity_ratio * 9
             in min base_complexity 10)"

subsection \<open>detect\_languages\<close>

text \<open>
  \<open>language_stats\<close> is a \<open>defaultdict\<close>: an association list in insertion order, a missing
  language starting from the all-zero entry.
\<close>

record language_stat =
  stat_size :: int
  stat_count :: int
  stat_code_size :: int
  stat_code_count :: int

record tally =
  language_stats :: "(string \<times> language_stat) list"
  total_size :: int
  total_count :: int
  total_code_size :: int
  total_code_count :: int

definition zero_stat :: language_stat where
  "zero_stat = \<lparr>stat_size = 0, stat_count = 0, stat_code_size = 0, stat_code_count = 0\<rparr>"

definition empty_tally :: tally where
  "empty_tally =
     \<lparr>language_stats = [], total_size = 0, total_count = 0, total_code_size = 0,
      total_code_count = 0\<rparr>"

fun update_stats ::
  "string \<Rightarrow> (language_stat \<Rightarrow> language_stat) \<Rightarrow> (string \<times> language_stat) list
   \<Rightarrow> (string \<times> language_stat) list" where
  "update_stats lang f [] = [(lang, f zero_stat)]"
| "update_stats lang f ((k, s) # rest) =
     (if k = lang then (k, f s) # rest else (k, s) # update_stats lang f rest)"

definition stats_of :: "tally \<Rightarrow> string \<Rightarrow> language_stat" where
  "stats_of t lang = (case map_of (language_stats t) lang of Some s \<Rightarrow> s | None \<Rightarrow> zero_stat)"

text \<open>The language a file counts for: by extension, else by content.\<close>

definition resolve_language :: "runtime \<Rightarrow> string \<Rightarrow> string \<Rightarrow> string" where
  "resolve_language rt filename content =
     (let lang = detect_language_by_extension filename
      in if lang = ''unknown'' \<and> content \<noteq> []
         then detect_language_by_content rt content filename
         else lang)"

text \<open>The body of the loop for a file of at least 10 bytes.\<close>

definition count_file :: "runtime \<Rightarrow> file_record \<Rightarrow> int \<Rightarrow> tally \<Rightarrow> tally" where
  "count_file rt file_item sz t =
     (let lang = resolve_language rt (file_path file_item) (file_content file_item);
          ext = lower (path_suffix (file_path file_item));
          is_code_file = (ext \<in> set code_extensions);
          t1 = t\<lparr>language_stats :=
                    update_stats lang
                      (\<lambda>s. s\<lparr>stat_size := stat_size s + sz, stat_count := stat_count s + 1\<rparr>)
                      (language_stats t),
                  total_size := total_size t + sz,
                  total_count := total_count t + 1\<rparr>
      in if is_code_file
         then t1\<lparr>language_stats :=
                    update_stats lang
                      (\<lambda>s. s\<lparr>stat_code_size := stat_code_size s + sz,
                              stat_code_count := stat_code_count s + 1\<rparr>)
                      (language_stats t1),
                  total_code_size := total_code_size t1 + sz,
                  total_code_count := total_code_count t1 + 1\<rparr>
         else t1)"

fun tally_files :: "runtime \<Rightarrow> file_record list \<Rightarrow> tally \<Rightarrow> py_error + tally" where
  "tally_files rt [] t = Inr t"
| "tally_files rt (file_item # files) t =
     (case file_size file_item of
        NotANumber \<Rightarrow> Inl TypeError
      | Size sz \<Rightarrow>
          if sz < 10 then tally_files rt files t
          else tally_files rt files (count_file rt file_item sz t))"

definition weighted_percentage :: "tally \<Rightarrow> language_stat \<Rightarrow> rat" where
  "weighted_percentage t stats =
     (let size_percentage =
            (if total_size t > 0 then of_int (stat_size stats) / of_int (total_size t) * 100
             else 0);
          count_percentage =
            (if total_count t > 0 then of_int (stat_count stats) / of_int (total_count t) * 100
             else 0)
      in if total_code_size t > 0 \<and> stat_code_size stats > 0
         then
           let code_size_percentage =
                 of_int (stat_code_size stats) / of_int (total_code_size t) * 100;
               code_count_percentage =
                 (if total_code_count t > 0
                  then of_int (stat_code_count stats) / of_int (total_code_count t) * 100
                  else 0)
           in size_percentage * (4 / 10) + count_percentage * (2 / 10)
              + code_size_percentage * (3 / 10) + code_count_percentage * (1 / 10)
         else size_percentage * (6 / 10) + count_percentage * (4 / 10))"

definition primary_extension_mapping :: "(string \<times> string) list" where
  \<open>primary_extension_mapping =
    [(''python'', ''.py''), (''javascript'', ''.js''), (''typescript'', ''.ts''),
     (''java'', ''.java''), (''cpp'', ''.cpp''), (''csharp'', ''.cs''), (''go'', ''.go''),
     (''rust'', ''.rs''), (''php'', ''.php''), (''ruby'', ''.rb''), (''json'', ''.json''),
     (''xml'', ''.xml''), (''yaml'', ''.yml''), (''html'', ''.html''), (''css'', ''.css''),
     (''markdown'', ''.md'')]\<close>

definition get_primary_extension_for_language :: "string \<Rightarrow> string" where
  "get_primary_extension_for_language lang =
     (case map_of primary_extension_mapping lang of Some ext \<Rightarrow> ext | None \<Rightarrow> ''.txt'')"

text \<open>The entry of one language in \<open>language_percentages\<close>, if it reaches the threshold.\<close>

definition language_percentage :: "tally \<Rightarrow> string \<times> language_stat \<Rightarrow> (string \<times> rat) option" where
  "language_percentage t entry =
     (let lang = fst entry; stats = snd entry;
          weighted = weighted_percentage t stats
      in if weighted \<ge> 3
         then
           let penalised =
                 (if stat_code_count stats = 0 \<and> stat_count stats > 0
                     \<and> get_primary_extension_for_language lang \<in> set data_extensions
                  then weighted * (7 / 10) else weighted)
           in Some (lang, py_round penalised 1)
         else None)"

text \<open>\<open>sorted(d.items(), key=lambda x: x[1], reverse=True)\<close>: stable, highest value first.\<close>

definition sort_by_percentage :: "(string \<times> rat) list \<Rightarrow> (string \<times> rat) list" where
  "sort_by_percentage d = sort_key (\<lambda>entry. - snd entry) d"

text \<open>\<open>d[k] = v\<close> and \<open>d[k]\<close> on a dict in insertion order.\<close>

fun dict_set :: "string \<Rightarrow> rat \<Rightarrow> (string \<times> rat) list \<Rightarrow> (string \<times> rat) list" where
  "dict_set k v [] = [(k, v)]"
| "dict_set k v ((k', v') # rest) =
     (if k' = k then (k, v) # rest else (k', v') # dict_set k v rest)"

text \<open>The keys read below are keys of the dict: \<open>KeyError\<close> cannot occur.\<close>

definition dict_get :: "(string \<times> rat) list \<Rightarrow> string \<Rightarrow> rat" where
  "dict_get d k = (case map_of d k of Some v \<Rightarrow> v | None \<Rightarrow> 0)"

text \<open>The final balancing of the sorted percentages.\<close>

definition rebalance :: "tally \<Rightarrow> (string \<times> rat) list \<Rightarrow> (string \<times> rat) list" where
  "rebalance t sorted_languages =
     (case sorted_languages of
        [] \<Rightarrow> []
      | (top_lang, top_percentage) # _ \<Rightarrow>
          if top_percentage > 70 \<and> stat_code_count (stats_of t top_lang) = 0
          then
            let redistribution = min (top_percentage - 50) 20;
                lowered = dict_set top_lang (top_percentage - redistribution) sorted_languages;
                code_languages =
                  map fst
                    (filter (\<lambda>(lang, stats). stat_code_count stats > 0 \<and> lang \<in> fst ` set lowered)
                       (language_stats t))
            in if code_languages \<noteq> []
               then
                 let boost_per_lang = redistribution / of_nat (length code_languages)
                 in foldl (\<lambda>d lang. dict_set lang (dict_get d lang + boost_per_lang) d)
                      lowered code_languages
               else lowered
          else sorted_languages)"

definition language_distribution :: "tally \<Rightarrow> (string \<times> rat) list" where
  "language_distribution t =
     (let language_percentages = List.map_filter (language_percentage t) (language_stats t);
          sorted_languages = rebalance t (sort_by_percentage language_percentages)
      in sort_by_percentage (map (\<lambda>(k, v). (k, py_round v 1)) sorted_languages))"

definition detect_languages :: "runtime \<Rightarrow> file_record list \<Rightarrow> py_error + (string \<times> rat) list" where
  "detect_languages rt files =
     (case tally_files rt files empty_tally of
        Inl e \<Rightarrow> Inl e
      | Inr t \<Rightarrow> Inr (language_distribution t))"

definition detect_primary_language :: "runtime \<Rightarrow> file_record list \<Rightarrow> py_error + string" where
  "detect_primary_language rt files =
     (case detect_languages rt files of
        Inl e \<Rightarrow> Inl e
      | Inr [] \<Rightarrow> Inr ''unknown''
      | Inr ((lang, p) # _) \<Rightarrow> Inr lang)"

subsection \<open>detect\_frameworks\<close>

definition framework_patterns :: "(string \<times> (string \<times> string list) list) list" where
  \<open>framework_patterns =
    [(''python'',
        [(''django'',
            [''from django'', ''import django'', ''DJANGO_SETTINGS_MODULE'',
             rx ''manage~.py'', rx ''settings~.py'']),
         (''flask'',
            [''from flask'', ''import flask'', rx ''Flask~(__name__~)'', rx ''@app~.route'']),
         (''fastapi'',
            [''from fastapi'', ''import fastapi'', rx ''FastAPI~('',
             rx ''@app~.(get|post|put|delete)'']),
         (''pytest'',
            [''import pytest'', ''def test_'', rx ''@pytest~.'', rx ''conftest~.py''])]),
     (''javascript'',
        [(''react'',
            [''import.*react'', ''from.*react'', rx ''React~.'', ''jsx|tsx'',
             ''useState|useEffect'']),
         (''vue'',
            [''import.*vue'', ''from.*vue'', rx ''Vue~.'', ''<template>'', rx ''~.vue'']),
         (''angular'',
            [''@angular'', ''@Component'', ''@Injectable'', ''@NgModule'']),
         (''express'',
            [''require.*express'', ''import.*express'', rx ''app~.get|app~.post'',
             rx ''express~(~)'']),
         (''nextjs'',
            [''next/'', ''getStaticProps'', ''getServerSideProps'', rx ''next~.config''])]),
     (''typescript'',
        [(''angular'',
            [''@angular'', ''@Component'', ''@Injectable'']),
         (''nestjs'',
            [''@nestjs'', ''@Controller'', ''@Injectable'', ''@Module''])])]\<close>

definition framework_score :: "runtime \<Rightarrow> string \<Rightarrow> string \<Rightarrow> string list \<Rightarrow> nat" where
  "framework_score rt filename content patterns =
     sum_list
       (map (\<lambda>pattern.
               (if re_search rt pattern [IGNORECASE] filename \<noteq> None then 2 else 0)
               + length (re_findall rt pattern [IGNORECASE, MULTILINE] (take 5000 content)))
          patterns)"

text \<open>\<open>framework_scores[framework] += score\<close> on a \<open>defaultdict(int)\<close>.\<close>

fun add_score :: "string \<Rightarrow> nat \<Rightarrow> (string \<times> nat) list \<Rightarrow> (string \<times> nat) list" where
  "add_score framework score [] = [(framework, score)]"
| "add_score framework score ((k, v) # rest) =
     (if k = framework then (k, v + score) # rest else (k, v) # add_score framework score rest)"

definition score_file ::
  "runtime \<Rightarrow> (string \<times> string list) list \<Rightarrow> (string \<times> nat) list \<Rightarrow> file_record
   \<Rightarrow> (string \<times> nat) list" where
  "score_file rt patterns_of_language framework_scores file_info =
     (if file_content file_info = [] then framework_scores
      else
        let filename = lower (path_name (file_path file_info))
        in foldl (\<lambda>scores (framework, patterns).
                    let score = framework_score rt filename (file_content file_info) patterns
                    in if score > 0 then add_score framework score scores else scores)
             framework_scores patterns_of_language)"

definition detect_frameworks ::
  "runtime \<Rightarrow> file_record list \<Rightarrow> string \<Rightarrow> py_error + string list" where
  "detect_frameworks rt files primary_language =
     (case (if primary_language = [] then detect_primary_language rt files
            else Inr primary_language) of
        Inl e \<Rightarrow> Inl e
      | Inr lang \<Rightarrow>
          (case map_of framework_patterns lang of
             None \<Rightarrow> Inr []
           | Some patterns_of_language \<Rightarrow>
               let framework_scores = foldl (score_file rt patterns_of_language) [] files;
                   detected_frameworks = filter (\<lambda>(framework, score). score \<ge> 3) framework_scores
               in Inr (take 3 (map fst (sort_key (\<lambda>(framework, score). - int score)
                                          detected_frameworks)))))"

section \<open>file\_processor.py: DependencyExtractor\<close>

text \<open>
  A Python set of strings is a duplicate-free list; the order of its elements is not
  observable, since the extractor sorts what it returns.
\<close>

definition requirement_lines :: "runtime \<Rightarrow> string \<Rightarrow> string list" where
  \<open>requirement_lines rt content =
     remdups
       (concat
          (map (\<lambda>raw_line.
                  let line = strip raw_line
                  in if line \<noteq> [] \<and> \<not> startswith line ''#'' \<and> \<not> startswith line ''-''
                     then (case re_search rt ''^([a-zA-Z0-9_-]+)'' [] line of
                             Some m \<Rightarrow> [group m 1]
                           | None \<Rightarrow> [])
                     else [])
             (split_on (CHR 0x0A) content)))\<close>

definition bracketed_names :: "runtime \<Rightarrow> string \<Rightarrow> string \<Rightarrow> string list" where
  \<open>bracketed_names rt list_pattern content =
     (case re_search rt list_pattern [DOTALL] content of
        Some requires_match \<Rightarrow>
          remdups (map (\<lambda>m. group m 0)
                     (re_findall rt (rx ''["~\']([a-zA-Z0-9_-]+)'') [] (group requires_match 1)))
      | None \<Rightarrow> [])\<close>

definition extract_python_deps :: "runtime \<Rightarrow> file_record \<Rightarrow> py_error + string list" where
  \<open>extract_python_deps rt file_info =
     (let content = file_content file_info;
          filename = lower (path_name (file_path file_info))
      in if filename \<in> set [''requirements.txt'', ''requirements-dev.txt'', ''dev-requirements.txt'']
         then Inr (requirement_lines rt content)
         else if filename = ''setup.py''
         then Inr (bracketed_names rt (rx ''install_requires~s*=~s*~[(.*?)~]'') content)
         else if filename = ''pyproject.toml''
         then Inr (bracketed_names rt (rx ''dependencies~s*=~s*~[(.*?)~]'') content)
         else if endswith filename ''.py''
         then Inr (remdups
                     (filter (\<lambda>dep. dep \<noteq> [] \<and> \<not> startswith dep ''_'')
                        (map (\<lambda>m. if group m 0 \<noteq> [] then group m 0 else group m 1)
                           (re_findall rt
                              (rx ''(?:^from~s+([a-zA-Z0-9_]+)|^import~s+([a-zA-Z0-9_]+))'')
                              [MULTILINE] content))))
         else Inr [])\<close>

text \<open>
  \<open>if dep_type in package_data: deps.update(package_data[dep_type].keys())\<close> for whatever
  value the JSON text denotes.
\<close>

fun dependency_keys :: "json \<Rightarrow> string \<Rightarrow> py_error + string list" where
  "dependency_keys (JObject entries) dep_type =
     (case map_of entries dep_type of
        None \<Rightarrow> Inr []
      | Some (JObject deps) \<Rightarrow> Inr (map fst deps)
      | Some _ \<Rightarrow> Inl AttributeError)"
| "dependency_keys (JArray items) dep_type =
     (if JString dep_type \<in> set items then Inl TypeError else Inr [])"
| "dependency_keys (JString s) dep_type =
     (if str_contains dep_type s then Inl TypeError else Inr [])"
| "dependency_keys _ dep_type = Inl TypeError"

fun package_json_deps :: "json \<Rightarrow> string list \<Rightarrow> string list \<Rightarrow> py_error + string list" where
  "package_json_deps package_data [] deps = Inr deps"
| "package_json_deps package_data (dep_type # dep_types) deps =
     (case dependency_keys package_data dep_type of
        Inl e \<Rightarrow> Inl e
      | Inr keys \<Rightarrow> package_json_deps package_data dep_types (List.union keys deps))"

definition base_package :: "string \<Rightarrow> string" where
  \<open>base_package m =
     (let parts = split_on CHR ''/'' m;
          base_pkg = hd parts
      in if startswith base_pkg ''@'' \<and> length parts \<ge> 2
         then parts ! 0 @ ''/'' @ parts ! 1
         else base_pkg)\<close>

definition js_import_patterns :: "string list" where
  \<open>js_import_patterns =
     [rx ''import.*?from~s+[~\'"]([^~\'"]+)[~\'"]'',
      rx ''require~([~\'"]([^~\'"]+)[~\'"]~)'',
      rx ''import~([~\'"]([^~\'"]+)[~\'"]~)'',
      rx ''import~s+[~\'"]([^~\'"]+)[~\'"]'']\<close>

definition extract_js_deps :: "runtime \<Rightarrow> file_record \<Rightarrow> py_error + string list" where
  \<open>extract_js_deps rt file_info =
     (let content = file_content file_info;
          filename = lower (path_name (file_path file_info))
      in if filename = ''package.json''
         then (case json_loads rt content of
                 None \<Rightarrow> Inr []
               | Some package_data \<Rightarrow>
                   package_json_deps package_data
                     [''dependencies'', ''devDependencies'', ''peerDependencies''] [])
         else if list_ex (endswith filename) [''.js'', ''.ts'', ''.jsx'', ''.tsx'']
         then Inr (remdups
                     (concat
                        (map (\<lambda>pattern.
                                map base_package
                                  (filter (\<lambda>m. \<not> startswith m ''.'')
                                     (map (\<lambda>m. group m 0) (re_findall rt pattern [] content))))
                           js_import_patterns)))
         else Inr [])\<close>

definition extract_java_deps :: "runtime \<Rightarrow> file_record \<Rightarrow> py_error + string list" where
  \<open>extract_java_deps rt file_info =
     (let content = file_content file_info;
          filename = lower (path_name (file_path file_info))
      in if filename = ''pom.xml''
         then Inr (remdups (map (\<lambda>m. group m 0)
                              (re_findall rt ''<artifactId>(.*?)</artifactId>'' [] content)))
         else if filename \<in> set [''build.gradle'', ''build.gradle.kts'']
         then Inr (remdups
                     (map (\<lambda>m. group m 1)
                        (re_findall rt
                           (rx ''(?:implementation|compile|api)~s+[~\'"]([^:]+):([^:~\'"]+)'')
                           [] content)))
         else Inr [])\<close>

definition extract_go_deps :: "runtime \<Rightarrow> file_record \<Rightarrow> py_error + string list" where
  \<open>extract_go_deps rt file_info =
     (let content = file_content file_info;
          filename = lower (path_name (file_path file_info))
      in if filename = ''go.mod''
         then Inr (remdups (map (\<lambda>m. group m 0)
                              (re_findall rt (rx ''require~s+([^~s]+)'') [] content)))
         else if endswith filename ''.go''
         then Inr (remdups
                     (map (\<lambda>m. if group m 0 \<noteq> [] then group m 0 else group m 1)
                        (re_findall rt (rx ''import~s+(?:"([^"]+)"|`([^`]+)`)'') [] content)))
         else Inr [])\<close>

definition extract_rust_deps :: "runtime \<Rightarrow> file_record \<Rightarrow> py_error + string list" where
  \<open>extract_rust_deps rt file_info =
     (let content = file_content file_info;
          filename = lower (path_name (file_path file_info))
      in if filename = ''cargo.toml''
         then (case re_search rt (rx ''~[dependencies~](.*?)(?:~[|$)'') [DOTALL] content of
                 Some deps_match \<Rightarrow>
                   Inr (remdups
                          (map (\<lambda>line. strip (hd (split_on CHR ''='' line)))
                             (filter (\<lambda>line. str_contains ''='' line \<and> \<not> startswith line ''#'')
                                (map strip (split_on (CHR 0x0A) (group deps_match 1))))))
               | None \<Rightarrow> Inr [])
         else Inr [])\<close>

definition extract_csharp_deps :: "runtime \<Rightarrow> file_record \<Rightarrow> py_error + string list" where
  \<open>extract_csharp_deps rt file_info =
     (let content = file_content file_info;
          filename = lower (path_name (file_path file_info))
      in if endswith filename ''.csproj''
         then Inr (remdups
                     (map (\<lambda>m. group m 0)
                        (re_findall rt (rx ''<PackageReference~s+Include="([^"]+)"'') [] content)))
         else Inr [])\<close>

definition extractors :: "(string \<times> (runtime \<Rightarrow> file_record \<Rightarrow> py_error + string list)) list" where
  "extractors =
     [(''python'', extract_python_deps),
      (''javascript'', extract_js_deps),
      (''typescript'', extract_js_deps),
      (''java'', extract_java_deps),
      (''go'', extract_go_deps),
      (''rust'', extract_rust_deps),
      (''csharp'', extract_csharp_deps)]"

text \<open>
  The loop over the files: a file whose extractor raises is skipped, and the loop stops
  once more than 100 names are collected.
\<close>

fun collect_deps ::
  "(file_record \<Rightarrow> py_error + string list) \<Rightarrow> file_record list \<Rightarrow> string list \<Rightarrow> string list" where
  "collect_deps extractor [] all_deps = all_deps"
| "collect_deps extractor (file_info # files) all_deps =
     (case extractor file_info of
        Inl e \<Rightarrow> collect_deps extractor files all_deps
      | Inr deps \<Rightarrow>
          let all_deps' = List.union deps all_deps
          in if length all_deps' > 100 then all_deps'
             else collect_deps extractor files all_deps')"

definition extract_dependencies :: "runtime \<Rightarrow> file_record list \<Rightarrow> string \<Rightarrow> string list" where
  "extract_dependencies rt files primary_language =
     (case map_of extractors primary_language of
        None \<Rightarrow> []
      | Some extractor \<Rightarrow>
          let all_deps = collect_deps (extractor rt) files [];
              filtered_deps =
                filter (\<lambda>dep. length dep > 1 \<and> length dep < 50 \<and> \<not> startswith dep ''.'') all_deps
          in take 30 (sort filtered_deps))"

section \<open>file\_processor.py: FilePrioritizer\<close>

definition weights :: "(string \<times> int) list" where
  \<open>weights =
    [(''language_match'', 200), (''importance_score'', 100), (''complexity'', 50),
     (''size_factor'', 30), (''depth_penalty'', 25), (''framework_bonus'', 150),
     (''special_file_bonus'', 100)]\<close>

text \<open>\<open>self.weights[key]\<close> for a key of the table.\<close>

definition weight :: "string \<Rightarrow> int" where
  "weight key = (case map_of weights key of Some w \<Rightarrow> w | None \<Rightarrow> 0)"

definition category_priorities :: "(string \<times> int) list" where
  \<open>category_priorities =
    [(''python'', 800), (''javascript'', 750), (''typescript'', 750), (''java'', 700),
     (''cpp'', 650), (''csharp'', 650), (''go'', 650), (''rust'', 650), (''php'', 600),
     (''ruby'', 600), (''swift'', 580), (''kotlin'', 580), (''scala'', 570),
     (''dockerfile'', 900), (''makefile'', 800), (''config'', 550), (''yaml'', 500),
     (''json'', 500), (''xml'', 400), (''markdown'', 400), (''text'', 300), (''binary'', 0),
     (''skip'', 0)]\<close>

definition get_base_priority_by_category :: "string \<Rightarrow> int" where
  "get_base_priority_by_category category =
     (case map_of category_priorities category of Some p \<Rightarrow> p | None \<Rightarrow> 200)"

definition importance_patterns :: "(string \<times> int) list" where
  \<open>importance_patterns =
    [(''readme.md'', 300), (''readme.txt'', 250), (''changelog.md'', 150), (''license'', 100),
     (''contributing.md'', 100), (''dockerfile'', 400), (''docker-compose.yml'', 350),
     (''makefile'', 300), (''package.json'', 250), (''requirements.txt'', 200),
     (''setup.py'', 200), (''pyproject.toml'', 200), (''cargo.toml'', 200), (''go.mod'', 200),
     (''pom.xml'', 180), (''build.gradle'', 180), (''.gitignore'', 100), (''main.py'', 300),
     (''main.js'', 300), (''index.js'', 300), (''index.html'', 250), (''app.py'', 300),
     (''server.py'', 250), (''manage.py'', 200), (''config.py'', 180), (''settings.py'', 200),
     (''wsgi.py'', 150), (''asgi.py'', 150)]\<close>

definition calculate_importance_bonus :: "runtime \<Rightarrow> string \<Rightarrow> string \<Rightarrow> int" where
  \<open>calculate_importance_bonus rt filename full_path =
     (case map_of importance_patterns filename of
        Some bonus \<Rightarrow> bonus
      | None \<Rightarrow>
          (if re_search rt (rx ''~b(main|index|app|server)~b'') [] filename \<noteq> None
           then 200 else 0)
          + (if re_search rt (rx ''~b(test|spec)s?~b'') [] filename \<noteq> None
                \<and> \<not> str_contains ''node_modules'' full_path
             then 50 else 0)
          + (if re_search rt (rx ''~b(config|settings|env)~b'') [] filename \<noteq> None
             then 100 else 0)
          + (if re_search rt (rx ''~b(api|endpoint|route|view)s?~b'') [] filename \<noteq> None
             then 150 else 0)
          + (if re_search rt (rx ''~b(model|schema|entity)s?~b'') [] filename \<noteq> None
             then 120 else 0))\<close>

definition framework_bonus_patterns :: "(string \<times> int) list" where
  \<open>framework_bonus_patterns =
    [(rx ''~bfrom django~b|~bimport django~b'', 150), (rx ''~bfrom flask~b|~bFlask~('', 150),
     (rx ''~bfrom fastapi~b|~bFastAPI~('', 150), (rx ''~bfastapi~b.*~bApp'', 100),
     (rx ''~bfrom [\'~"]react[\'~"]|~bimport.*react'', 150),
     (rx ''~bfrom [\'~"]vue[\'~"]|~bVue~.'', 150), (rx ''~b@angular~b|~bAngular'', 150),
     (rx ''~bexpress~(~)|~brequire.*express'', 120), (rx ''~bnext/|~bgetStaticProps'', 130),
     (rx ''~bwebpack~b|~brollup~b|~bvite~b'', 100), (rx ''~bbabel~b|~b@babel'', 80),
     (rx ''~bjest~b|~bcypress~b'', 70), (rx ''~bsqlalchemy~b|~bdjango~.db'', 100),
     (rx ''~bmongoose~b|~bmongodb'', 90), (rx ''~bexport default~b|~bmodule~.exports'', 50),
     (rx ''~bclass~s+~w+.*Component'', 100)]\<close>

definition calculate_framework_bonus :: "runtime \<Rightarrow> string \<Rightarrow> string \<Rightarrow> int" where
  "calculate_framework_bonus rt content lang =
     (if content = [] then 0
      else
        let content_sample = take 2000 content;
            bonus = sum_list
                      (map (\<lambda>(pattern, pattern_bonus).
                              if re_search rt pattern [IGNORECASE] content_sample \<noteq> None
                              then pattern_bonus else 0)
                         framework_bonus_patterns)
        in min bonus 300)"

definition calculate_size_factor :: "size_value \<Rightarrow> py_error + int" where
  "calculate_size_factor sz =
     (case sz of
        NotANumber \<Rightarrow> Inl TypeError
      | Size n \<Rightarrow>
          Inr (if n = 0 then - 50
               else if n > MAX_FILE_SIZE then - 200
               else if n < 100 then - 30
               else if 100 \<le> n \<and> n \<le> 5000 then 30
               else if 5000 < n \<and> n \<le> 20000 then 10
               else if 20000 < n \<and> n \<le> 50000 then - 10
               else - 30))"

definition comment_patterns :: "(string \<times> string) list" where
  \<open>comment_patterns =
    [(''.py'', rx ''^~s*#''), (''.js'', rx ''^~s*//|/~*.*?~*/''),
     (''.ts'', rx ''^~s*//|/~*.*?~*/''), (''.java'', rx ''^~s*//|/~*.*?~*/''),
     (''.cpp'', rx ''^~s*//|/~*.*?~*/''), (''.c'', rx ''^~s*//|/~*.*?~*/'')]\<close>

definition calculate_comment_ratio :: "runtime \<Rightarrow> string \<Rightarrow> string \<Rightarrow> rat" where
  "calculate_comment_ratio rt content file_ext =
     (if content = [] then 0
      else
        let total_lines = length (splitlines content)
        in if total_lines = 0 then 0
           else case map_of comment_patterns file_ext of
                  None \<Rightarrow> 0
                | Some pattern \<Rightarrow>
                    of_nat (length (re_findall rt pattern [MULTILINE] content))
                    / of_nat total_lines)"

definition calculate_content_quality_bonus :: "runtime \<Rightarrow> string \<Rightarrow> string \<Rightarrow> int" where
  \<open>calculate_content_quality_bonus rt content file_ext =
     (if content = [] then 0
      else
        (if length (strip content) > 50 then 20 else 0)
        + (if file_ext \<in> set [''.py'', ''.js'', ''.ts'', ''.java'', ''.cpp'']
              \<and> calculate_comment_ratio rt content file_ext > 1 / 10
           then 30 else 0)
        + (if re_search rt (rx ''~b(class|function|def|interface|struct)~s+~w+'') [IGNORECASE]
                content \<noteq> None
           then 40 else 0)
        + (if re_search rt (rx ''~b(import|include|require|from)~s+'') [IGNORECASE] content
              \<noteq> None
           then 20 else 0))\<close>

text \<open>
  The end of \<open>_calculate_priority_score\<close>, from \<open># Calculate final priority\<close> on: the
  sum of the factors, its floor of 10, and the record with its new keys.
  \<open>complexity\<close> is the value the key \<open>complexity\<close> has by then.
\<close>

definition with_final_priority ::
  "file_record \<Rightarrow> string \<Rightarrow> rat option \<Rightarrow> int \<Rightarrow> int \<Rightarrow> int \<Rightarrow> int \<Rightarrow> int \<Rightarrow> int \<Rightarrow> int \<Rightarrow> int
   \<Rightarrow> file_record" where
  "with_final_priority enhanced_file detected_language complexity base_priority language_bonus
     importance_bonus framework_bonus complexity_bonus size_factor content_bonus depth_penalty =
     (let final_priority =
            max (base_priority + language_bonus + importance_bonus + framework_bonus
                 + complexity_bonus + size_factor + content_bonus - depth_penalty)
              10
      in enhanced_file
           \<lparr>file_priority := Some final_priority,
            file_language := Some detected_language,
            file_complexity := complexity,
            file_priority_breakdown :=
              Some [(''base'', base_priority),
                    (''language'', language_bonus),
                    (''importance'', importance_bonus),
                    (''framework'', framework_bonus),
                    (''complexity'', complexity_bonus),
                    (''size'', size_factor),
                    (''content'', content_bonus),
                    (''depth_penalty'', - depth_penalty)]\<rparr>)"

text \<open>
  \<open>_calculate_priority_score\<close>. Everything before the size factor is pure, so the only
  exception is the \<open>TypeError\<close> of \<open>_calculate_size_factor\<close>.
\<close>

definition calculate_priority_score ::
  "runtime \<Rightarrow> file_record \<Rightarrow> string \<Rightarrow> py_error + file_record" where
  "calculate_priority_score rt file_info target_language =
     (let path = file_path file_info;
          content = file_content file_info;
          enhanced_file = file_info
      in if path = [] then Inr (enhanced_file\<lparr>file_priority := Some 50\<rparr>)
         else
           let filename = lower (path_name path);
               file_ext = lower (path_suffix path);
               directory_depth = int (length (path_parts path)) - 1;
               category = get_file_category filename;
               base_priority = get_base_priority_by_category category;
               detected_language = resolve_language rt filename content;
               language_bonus =
                 (if detected_language = target_language then weight ''language_match''
                  else if detected_language \<in> set [''python'', ''javascript'', ''typescript'', ''java'']
                  then weight ''language_match'' div 2
                  else 0);
               importance_bonus = calculate_importance_bonus rt filename path;
               framework_bonus = calculate_framework_bonus rt content detected_language;
               scored =
                 (content \<noteq> []
                  \<and> detected_language \<in> set [''python'', ''javascript'', ''typescript'', ''java'', ''cpp'']);
               complexity_score = calculate_complexity rt content detected_language;
               complexity_bonus =
                 (if scored then min (py_int (complexity_score * of_int (weight ''complexity''))) 200
                  else 0)
           in case calculate_size_factor (file_size file_info) of
                Inl e \<Rightarrow> Inl e
              | Inr size_factor \<Rightarrow>
                  let depth_penalty = min (directory_depth * weight ''depth_penalty'') 150;
                      content_bonus = calculate_content_quality_bonus rt content file_ext
                  in Inr (with_final_priority enhanced_file detected_language
                            (if scored then Some complexity_score else file_complexity file_info)
                            base_priority language_bonus importance_bonus framework_bonus
                            complexity_bonus size_factor content_bonus depth_penalty))"

text \<open>The body of the loop of \<open>prioritize_files\<close>, with its \<open>except\<close> branch.\<close>

definition score_or_default :: "runtime \<Rightarrow> string \<Rightarrow> file_record \<Rightarrow> file_record" where
  "score_or_default rt target_language file_info =
     (case calculate_priority_score rt file_info target_language of
        Inr enhanced_file \<Rightarrow> enhanced_file
      | Inl e \<Rightarrow> file_info\<lparr>file_priority := Some 100\<rparr>)"

text \<open>\<open>x.get("priority", 100)\<close>.\<close>

definition priority_of :: "file_record \<Rightarrow> int" where
  "priority_of file_info = (case file_priority file_info of Some p \<Rightarrow> p | None \<Rightarrow> 100)"

text \<open>
  \<open>prioritize_files\<close>; an empty \<open>target_language\<close> stands for \<open>None\<close>. The sort is stable
  and puts the highest priority first.
\<close>

definition prioritize_files ::
  "runtime \<Rightarrow> file_record list \<Rightarrow> string \<Rightarrow> py_error + file_record list" where
  "prioritize_files rt files target_language =
     (if files = [] then Inr []
      else case (if target_language = [] then detect_primary_language rt files
                 else Inr target_language) of
             Inl e \<Rightarrow> Inl e
           | Inr target \<Rightarrow>
               Inr (sort_key (\<lambda>x. - priority_of x) (map (score_or_default rt target) files)))"

section \<open>file\_processor.py: FileProcessor\<close>

subsection \<open>Basic filtering\<close>

definition binary_extensions :: "string list" where
  \<open>binary_extensions =
    [''.exe'', ''.dll'', ''.so'', ''.dylib'', ''.bin'', ''.img'', ''.iso'', ''.zip'',
     ''.tar'', ''.gz'', ''.rar'', ''.7z'', ''.jpg'', ''.jpeg'', ''.png'', ''.gif'', ''.bmp'',
     ''.svg'', ''.ico'', ''.mp3'', ''.mp4'', ''.avi'', ''.mov'', ''.pdf'', ''.doc'',
     ''.docx'', ''.xls'', ''.xlsx'', ''.ppt'', ''.pptx'']\<close>

definition non_printable :: "char \<Rightarrow> bool" where
  "non_printable c =
     ((of_char c :: nat) < 32 \<and> c \<notin> set [CHR 0x0A, CHR 0x0D, CHR 0x09])"

text \<open>
  \<open>_is_likely_binary\<close>. Every string of the model encodes as UTF-8, so the
  \<open>UnicodeEncodeError\<close> branch is not taken.
\<close>

definition is_likely_binary :: "string \<Rightarrow> string \<Rightarrow> bool" where
  "is_likely_binary path content =
     (if path = [] then False
      else if lower (path_suffix path) \<in> set binary_extensions then True
      else if content \<noteq> [] \<and> CHR 0x00 \<in> set content then True
      else if content \<noteq> []
              \<and> of_nat (length (filter non_printable (take 1000 content)))
                  > (of_nat (length (take 1000 content)) :: rat) * (3 / 10)
      then True
      else False)"

definition important_empty_files :: "string list" where
  \<open>important_empty_files =
    [''__init__.py'', ''.gitkeep'', ''.keep'']\<close>

definition is_important_empty_file :: "string \<Rightarrow> bool" where
  "is_important_empty_file path = (lower (path_name path) \<in> set important_empty_files)"

definition is_valid_path :: "string \<Rightarrow> bool" where
  "is_valid_path path = validate_file_path path"

fun apply_basic_filtering :: "file_record list \<Rightarrow> py_error + file_record list" where
  "apply_basic_filtering [] = Inr []"
| "apply_basic_filtering (file_info # files) =
     (let path = file_path file_info; content = file_content file_info
      in if \<not> is_valid_path path then apply_basic_filtering files
         else case file_size file_info of
                NotANumber \<Rightarrow> Inl TypeError
              | Size sz \<Rightarrow>
                  if sz > MAX_FILE_SIZE then apply_basic_filtering files
                  else if should_skip_file path then apply_basic_filtering files
                  else if is_likely_binary path content then apply_basic_filtering files
                  else if sz = 0 \<and> \<not> is_important_empty_file path
                  then apply_basic_filtering files
                  else (case apply_basic_filtering files of
                          Inl e \<Rightarrow> Inl e
                        | Inr valid_files \<Rightarrow> Inr (file_info # valid_files)))"

subsection \<open>Smart selection\<close>

text \<open>The keys of the context dict the selection reads; \<open>None\<close> is an absent key.\<close>

record selection_context =
  max_total_size :: "int option"
  max_files :: "int option"

text \<open>The four tiers, in the order of the dict: critical, high, medium, low.\<close>

definition group_by_priority_tiers :: "file_record list \<Rightarrow> (string \<times> file_record list) list" where
  "group_by_priority_tiers files =
     [(''critical'', filter (\<lambda>f. priority_of f \<ge> 800) files),
      (''high'', filter (\<lambda>f. \<not> priority_of f \<ge> 800 \<and> priority_of f \<ge> 600) files),
      (''medium'',
         filter (\<lambda>f. \<not> priority_of f \<ge> 800 \<and> \<not> priority_of f \<ge> 600 \<and> priority_of f \<ge> 400)
           files),
      (''low'',
         filter (\<lambda>f. \<not> priority_of f \<ge> 800 \<and> \<not> priority_of f \<ge> 600 \<and> \<not> priority_of f \<ge> 400)
           files)]"

text \<open>
  The inner loop over one tier, from the selection and its size so far (\<open>total_size\<close>
  in the source). Leaving with \<open>Inr\<close> before the tier is exhausted is the \<open>break\<close>.
\<close>

fun select_tier ::
  "int \<Rightarrow> int \<Rightarrow> file_record list \<Rightarrow> file_record list \<times> int
   \<Rightarrow> py_error + (file_record list \<times> int)" where
  "select_tier size_limit count_limit [] (selected_files, running_size) =
     Inr (selected_files, running_size)"
| "select_tier size_limit count_limit (file_info # tier_files) (selected_files, running_size) =
     (case file_size file_info of
        NotANumber \<Rightarrow> Inl TypeError
      | Size sz \<Rightarrow>
          if running_size + sz > size_limit
          then (if (of_int sz :: rat) < of_int size_limit * (1 / 10)
                then select_tier size_limit count_limit tier_files (selected_files, running_size)
                else Inr (selected_files, running_size))
          else if int (length selected_files) \<ge> count_limit
          then Inr (selected_files, running_size)
          else select_tier size_limit count_limit tier_files
                 (selected_files @ [file_info], running_size + sz))"

text \<open>The outer loop over the tiers.\<close>

fun select_tiers ::
  "int \<Rightarrow> int \<Rightarrow> file_record list list \<Rightarrow> file_record list \<times> int
   \<Rightarrow> py_error + (file_record list \<times> int)" where
  "select_tiers size_limit count_limit [] state = Inr state"
| "select_tiers size_limit count_limit (tier_files # tiers) state =
     (case select_tier size_limit count_limit tier_files state of
        Inl e \<Rightarrow> Inl e
      | Inr (selected_files, running_size) \<Rightarrow>
          if int (length selected_files) \<ge> count_limit
             \<or> (of_int running_size :: rat) \<ge> of_int size_limit * (9 / 10)
          then Inr (selected_files, running_size)
          else select_tiers size_limit count_limit tiers (selected_files, running_size))"

text \<open>
  \<open>context.get("max_total_size", Config.MAX_TOTAL_SIZE_BYTES)\<close> and
  \<open>context.get("max_files", Config.MAX_FILES_COUNT)\<close>.
\<close>

definition size_limit_of :: "selection_context \<Rightarrow> int" where
  "size_limit_of ctx = (case max_total_size ctx of Some n \<Rightarrow> n | None \<Rightarrow> MAX_TOTAL_SIZE_BYTES)"

definition count_limit_of :: "selection_context \<Rightarrow> int" where
  "count_limit_of ctx = (case max_files ctx of Some n \<Rightarrow> n | None \<Rightarrow> MAX_FILES_COUNT)"

definition perform_smart_selection ::
  "file_record list \<Rightarrow> selection_context \<Rightarrow> py_error + file_record list" where
  "perform_smart_selection prioritized_files ctx =
     (if prioritized_files = [] then Inr []
      else
        let size_limit = size_limit_of ctx;
            count_limit = count_limit_of ctx;
            priority_tiers = group_by_priority_tiers prioritized_files
        in case select_tiers size_limit count_limit (map snd priority_tiers) ([], 0) of
             Inl e \<Rightarrow> Inl e
           | Inr (selected_files, running_size) \<Rightarrow> Inr selected_files)"

subsection \<open>The analysis record and the pipeline\<close>

text \<open>
  \<open>self.stats\<close>, without the wall-clock \<open>processing_time\<close>. \<open>process_files\<close> takes the
  statistics of the processor and returns them updated.
\<close>

record processing_stats =
  total_files_processed :: int
  files_filtered :: int
  files_selected :: int
  languages_detected :: int
  frameworks_detected :: int

text \<open>The dict \<open>_generate_analysis_info\<close> returns, key by key.\<close>

record analysis =
  info_primary_language :: string
  info_languages :: "(string \<times> rat) list"
  info_detected_frameworks :: "string list"
  info_dependencies :: "string list"
  info_total_files_processed :: int
  info_files_filtered :: int
  info_selected_files_count :: int
  info_total_size :: int
  info_total_lines :: int
  info_average_complexity :: rat
  info_complexity_distribution :: "(string \<times> nat) list"
  info_processing_stats :: processing_stats
  info_language_breakdown :: "(string \<times> nat \<times> int \<times> nat) list"
  info_file_type_distribution :: "(string \<times> nat) list"

text \<open>
  What \<open>process_files\<close> returns second: the dict \<open>{"error": message}\<close>, or the full
  analysis.
\<close>

datatype analysis_info = ErrorInfo string | Analysis analysis

text \<open>\<open>sum(f.get("size", 0) for f in files)\<close>.\<close>

fun sum_sizes :: "file_record list \<Rightarrow> py_error + int" where
  "sum_sizes [] = Inr 0"
| "sum_sizes (f # fs) =
     (case file_size f of
        NotANumber \<Rightarrow> Inl TypeError
      | Size n \<Rightarrow> (case sum_sizes fs of Inl e \<Rightarrow> Inl e | Inr m \<Rightarrow> Inr (n + m)))"

definition analyze_complexity_distribution :: "rat list \<Rightarrow> (string \<times> nat) list" where
  "analyze_complexity_distribution complexity_scores =
     (if complexity_scores = [] then []
      else
        [(''simple'', length (filter (\<lambda>score. score \<le> 2) complexity_scores)),
         (''moderate'', length (filter (\<lambda>score. \<not> score \<le> 2 \<and> score \<le> 4) complexity_scores)),
         (''complex'',
            length (filter (\<lambda>score. \<not> score \<le> 2 \<and> \<not> score \<le> 4 \<and> score \<le> 7)
                      complexity_scores)),
         (''very_complex'',
            length (filter (\<lambda>score. \<not> score \<le> 2 \<and> \<not> score \<le> 4 \<and> \<not> score \<le> 7)
                      complexity_scores))])"

text \<open>\<open>breakdown[language]\<close> with its three counters, on a \<open>defaultdict\<close>.\<close>

fun add_to_breakdown ::
  "string \<Rightarrow> int \<Rightarrow> nat \<Rightarrow> (string \<times> nat \<times> int \<times> nat) list
   \<Rightarrow> (string \<times> nat \<times> int \<times> nat) list" where
  "add_to_breakdown lang sz n [] = [(lang, 1, sz, n)]"
| "add_to_breakdown lang sz n ((k, fs, s, ls) # rest) =
     (if k = lang then (k, fs + 1, s + sz, ls + n) # rest
      else (k, fs, s, ls) # add_to_breakdown lang sz n rest)"

fun generate_language_breakdown ::
  "file_record list \<Rightarrow> (string \<times> nat \<times> int \<times> nat) list
   \<Rightarrow> py_error + (string \<times> nat \<times> int \<times> nat) list" where
  "generate_language_breakdown [] breakdown = Inr breakdown"
| "generate_language_breakdown (file_info # files) breakdown =
     (let lang = (case file_language file_info of Some l \<Rightarrow> l | None \<Rightarrow> ''unknown'');
          content = file_content file_info;
          n = (if content \<noteq> [] then length (splitlines content) else 0)
      in case file_size file_info of
           NotANumber \<Rightarrow> Inl TypeError
         | Size sz \<Rightarrow> generate_language_breakdown files (add_to_breakdown lang sz n breakdown))"

definition analyze_file_types :: "file_record list \<Rightarrow> (string \<times> nat) list" where
  "analyze_file_types files =
     foldl (\<lambda>type_counts file_info.
              let path = file_path file_info
              in if path \<noteq> []
                 then let ext = lower (path_suffix path)
                      in add_score (if ext \<noteq> [] then ext else ''no_extension'') 1 type_counts
                 else type_counts)
       [] files"

definition generate_analysis_info ::
  "processing_stats \<Rightarrow> file_record list \<Rightarrow> (string \<times> rat) list \<Rightarrow> string list \<Rightarrow> string list
   \<Rightarrow> string \<Rightarrow> py_error + analysis" where
  "generate_analysis_info stats selected_files languages frameworks dependencies primary_language =
     (case sum_sizes selected_files of
        Inl e \<Rightarrow> Inl e
      | Inr bytes_selected \<Rightarrow>
          let total_lines =
                sum_list (map (\<lambda>f. length (splitlines (file_content f))) selected_files);
              complexity_scores =
                filter (\<lambda>c. c \<noteq> 0) (List.map_filter file_complexity selected_files);
              avg_complexity =
                (if complexity_scores \<noteq> []
                 then sum_list complexity_scores / of_nat (length complexity_scores)
                 else 1)
          in (case generate_language_breakdown selected_files [] of
               Inl e \<Rightarrow> Inl e
             | Inr breakdown \<Rightarrow>
                 Inr \<lparr>info_primary_language = primary_language,
                      info_languages = languages,
                      info_detected_frameworks = frameworks,
                      info_dependencies = dependencies,
                      info_total_files_processed = total_files_processed stats,
                      info_files_filtered = files_filtered stats,
                      info_selected_files_count = int (length selected_files),
                      info_total_size = bytes_selected,
                      info_total_lines = int total_lines,
                      info_average_complexity = py_round avg_complexity 2,
                      info_complexity_distribution =
                        analyze_complexity_distribution complexity_scores,
                      info_processing_stats = stats,
                      info_language_breakdown = breakdown,
                      info_file_type_distribution = analyze_file_types selected_files\<rparr>))"

text \<open>
  \<open>process_files\<close>: the outcome (an exception, or the selected files with the analysis)
  and the statistics as the call leaves them.
\<close>

definition process_files ::
  "runtime \<Rightarrow> processing_stats \<Rightarrow> file_record list \<Rightarrow> selection_context
   \<Rightarrow> (py_error + file_record list \<times> analysis_info) \<times> processing_stats" where
  "process_files rt stats files ctx =
     (let stats1 = stats\<lparr>total_files_processed := int (length files)\<rparr>
      in (case apply_basic_filtering files of
           Inl e \<Rightarrow> (Inl e, stats1)
         | Inr valid_files \<Rightarrow>
             let stats2 = stats1\<lparr>files_filtered := int (length files) - int (length valid_files)\<rparr>
             in if valid_files = []
                then (Inr ([], ErrorInfo ''No valid files to process''), stats2)
                else
                  (case detect_languages rt valid_files of
                    Inl e \<Rightarrow> (Inl e, stats2)
                  | Inr languages \<Rightarrow>
                      let primary_language =
                            (case languages of [] \<Rightarrow> ''unknown'' | entry # _ \<Rightarrow> fst entry);
                          stats3 = stats2\<lparr>languages_detected := int (length languages)\<rparr>
                      in (case detect_frameworks rt valid_files primary_language of
                           Inl e \<Rightarrow> (Inl e, stats3)
                         | Inr frameworks \<Rightarrow>
                             let stats4 = stats3\<lparr>frameworks_detected := int (length frameworks)\<rparr>;
                                 dependencies =
                                   extract_dependencies rt valid_files primary_language
                             in (case prioritize_files rt valid_files primary_language of
                                  Inl e \<Rightarrow> (Inl e, stats4)
                                | Inr prioritized_files \<Rightarrow>
                                    (case perform_smart_selection prioritized_files ctx of
                                       Inl e \<Rightarrow> (Inl e, stats4)
                                     | Inr selected_files \<Rightarrow>
                                         let stats5 =
                                               stats4\<lparr>files_selected := int (length selected_files)\<rparr>
                                         in (case generate_analysis_info stats5 selected_files
                                                   languages frameworks dependencies
                                                   primary_language of
                                              Inl e \<Rightarrow> (Inl e, stats5)
                                            | Inr info \<Rightarrow>
                                                (Inr (selected_files, Analysis info), stats5))))))))"

section \<open>Invariants and inputs for the examples\<close>

text \<open>
  The invariant of the two selection loops, for the state (selected files, their size):
  the size is the sum of the selected sizes; once a file is selected, the size is within
  the byte budget and the count within the count budget; and so was the size after every
  single append.
\<close>

definition within_budget :: "int \<Rightarrow> int \<Rightarrow> file_record list \<times> int \<Rightarrow> bool" where
  "within_budget size_limit count_limit state =
     (sum_sizes (fst state) = Inr (snd state)
      \<and> (fst state \<noteq> [] \<longrightarrow> snd state \<le> size_limit \<and> int (length (fst state)) \<le> count_limit)
      \<and> (\<forall>n. 0 < n \<and> n \<le> length (fst state) \<longrightarrow>
             (\<exists>t. sum_sizes (take n (fst state)) = Inr t \<and> t \<le> size_limit)))"

text \<open>
  A runtime for the concrete examples below: its \<open>re.search\<close> knows the one pattern of
  the requirements parser (the leading run of name characters), its \<open>re.findall\<close> finds
  the occurrences of a pattern that is a plain string, and its JSON parser rejects every
  text. The properties themselves are proved for every runtime.
\<close>

definition is_name_char :: "char \<Rightarrow> bool" where
  "is_name_char c =
     (let n = (of_char c :: nat)
      in (48 \<le> n \<and> n \<le> 57) \<or> (65 \<le> n \<and> n \<le> 90) \<or> (97 \<le> n \<and> n \<le> 122)
         \<or> c = CHR ''_'' \<or> c = CHR ''-'')"

fun occurrences :: "string \<Rightarrow> string \<Rightarrow> string list list" where
  "occurrences p [] = []"
| "occurrences p (c # cs) =
     (if p \<noteq> [] \<and> startswith (c # cs) p then [p] # occurrences p cs else occurrences p cs)"

definition example_runtime :: runtime where
  "example_runtime =
     \<lparr>re_search =
        (\<lambda>pattern flags s.
           if pattern = ''^([a-zA-Z0-9_-]+)'' \<and> takeWhile is_name_char s \<noteq> []
           then Some [takeWhile is_name_char s, takeWhile is_name_char s]
           else None),
      re_findall = (\<lambda>pattern flags s. occurrences pattern s),
      json_loads = (\<lambda>s. None)\<rparr>"

definition example_file :: "string \<Rightarrow> string \<Rightarrow> size_value \<Rightarrow> file_record" where
  "example_file path content sz =
     \<lparr>file_path = path, file_content = content, file_size = sz, file_priority = None,
      file_language = None, file_complexity = None, file_priority_breakdown = None\<rparr>"

definition example_stats :: processing_stats where
  "example_stats =
     \<lparr>total_files_processed = 0, files_filtered = 0, files_selected = 0,
      languages_detected = 0, frameworks_detected = 0\<rparr>"

text \<open>Prioritized files for the selection examples.\<close>

definition prioritized_file :: "string \<Rightarrow> int \<Rightarrow> int \<Rightarrow> file_record" where
  "prioritized_file path sz p = (example_file path [] (Size sz))\<lparr>file_priority := Some p\<rparr>"

definition example_context :: selection_context where
  "example_context = \<lparr>max_total_size = Some 100, max_files = Some 10\<rparr>"

text \<open>Files for the prioritization example.\<close>

definition example_batch :: "file_record list" where
  "example_batch =
     [example_file ''docs/notes.txt'' ''x'' (Size 200),
      example_file ''main.py'' [] (Size 100),
      example_file ''b.json'' ''{}'' NotANumber,
      example_file [] ''y'' (Size 3)]"

text \<open>Invariants of the language statistics.\<close>

text \<open>What the tally loop keeps true.\<close>

definition stat_ok :: "language_stat \<Rightarrow> bool" where
  "stat_ok s =
     (0 \<le> stat_size s \<and> 0 \<le> stat_count s \<and> 0 \<le> stat_code_size s \<and> 0 \<le> stat_code_count s
      \<and> (stat_code_count s = 0 \<longrightarrow> stat_code_size s = 0))"

definition tally_ok :: "tally \<Rightarrow> bool" where
  "tally_ok t =
     (distinct (map fst (language_stats t))
      \<and> (\<forall>entry \<in> set (language_stats t). stat_ok (snd entry))
      \<and> sum_list (map (\<lambda>entry. stat_size (snd entry)) (language_stats t)) = total_size t
      \<and> sum_list (map (\<lambda>entry. stat_count (snd entry)) (language_stats t)) = total_count t
      \<and> sum_list (map (\<lambda>entry. stat_code_size (snd entry)) (language_stats t)) = total_code_size t
      \<and> sum_list (map (\<lambda>entry. stat_code_count (snd entry)) (language_stats t))
          = total_code_count t)"

text \<open>A share of a total, in percent, as \<open>detect_languages\<close> computes it.\<close>

definition pct :: "int \<Rightarrow> int \<Rightarrow> rat" where
  "pct part whole = (if whole > 0 then of_int part / of_int whole * 100 else 0)"

text \<open>A list of percentages whose entries come from the statistics, one per language.\<close>

definition from_stats :: "tally \<Rightarrow> (string \<times> rat) list \<Rightarrow> bool" where
  "from_stats t d =
     (distinct (map fst d)
      \<and> (\<forall>item \<in> set d. \<exists>entry \<in> set (language_stats t). language_percentage t entry = Some item))"

text \<open>Files for the language distribution example: one small source file among documents.\<close>

definition example_docs :: "file_record list" where
  "example_docs =
     [example_file ''a.py'' ''x'' (Size 100),
      example_file ''b.md'' ''x'' (Size 10000),
      example_file ''c.md'' ''x'' (Size 50),
      example_file ''d.md'' ''x'' (Size 50),
      example_file ''e.md'' ''x'' (Size 50)]"

section \<open>Properties\<close>

subsection \<open>The category classifier\<close>

lemma get_file_category_nonempty:
  "filename \<noteq> [] \<Longrightarrow>
   get_file_category filename =
     (let normalized_name = strip (lower filename)
      in if normalized_name \<in> set SKIP_FILES then ''skip''
         else case map_of SPECIAL_FILES normalized_name of
                Some category \<Rightarrow> category
              | None \<Rightarrow>
                 (case category_of_multi_part normalized_name of
                    Some category \<Rightarrow> category
                  | None \<Rightarrow>
                     (case category_by_suffixes filename of
                        Some category \<Rightarrow> category
                      | None \<Rightarrow> fallback_category normalized_name)))"
  by (simp add: get_file_category_def)

lemma strip_lower_empty: "strip (lower []) = []"
  by (simp add: strip_def lstrip_def rstrip_def lower_def)

lemma empty_not_skipped: "[] \<notin> set SKIP_FILES"
  by (simp add: SKIP_FILES_def)

text \<open>
  C5. A file name whose lower-cased, stripped form is an entry of \<open>SKIP_FILES\<close> is
  classified \<open>skip\<close>, whatever the special-files table, the multi-part extensions and
  the suffix tables say about it; the skip-set lists \<open>.gitignore\<close>, \<open>node_modules\<close>,
  \<open>.DS_Store\<close> and \<open>Thumbs.db\<close>.
\<close>

theorem skip_files_take_precedence:
  assumes "strip (lower filename) \<in> set SKIP_FILES"
  shows "get_file_category filename = ''skip''
         \<and> ''.gitignore'' \<in> set SKIP_FILES \<and> ''node_modules'' \<in> set SKIP_FILES
         \<and> ''.DS_Store'' \<in> set SKIP_FILES \<and> ''Thumbs.db'' \<in> set SKIP_FILES"
proof -
  have "filename \<noteq> []"
    using assms strip_lower_empty empty_not_skipped by auto
  then have "get_file_category filename = ''skip''"
    using assms by (simp add: get_file_category_nonempty)
  moreover have "''.gitignore'' \<in> set SKIP_FILES" "''node_modules'' \<in> set SKIP_FILES"
    "''.DS_Store'' \<in> set SKIP_FILES" "''Thumbs.db'' \<in> set SKIP_FILES"
    by (simp_all add: SKIP_FILES_def)
  ultimately show ?thesis by simp
qed

text \<open>
  The rule wins over the later ones: \<open>.travis.yml\<close> is also a special file (\<open>config\<close>),
  \<open>.gitignore\<close> also ends with a multi-part extension (\<open>config\<close>) and \<open>coverage.xml\<close>
  also has a suffix of the language table (\<open>xml\<close>).
\<close>

theorem skip_files_take_precedence_witness:
  "strip (lower '' .Travis.yml'') \<in> set SKIP_FILES
   \<and> get_file_category '' .Travis.yml'' = ''skip''
   \<and> map_of SPECIAL_FILES ''.travis.yml'' = Some ''config''
   \<and> get_file_category ''.gitignore'' = ''skip''
   \<and> category_of_multi_part ''.gitignore'' = Some ''config''
   \<and> get_file_category ''coverage.xml'' = ''skip''
   \<and> category_by_suffixes ''coverage.xml'' = Some ''xml''"
proof -
  have h1: "strip (lower '' .Travis.yml'') \<in> set SKIP_FILES" by code_simp
  have h2: "strip (lower ''.gitignore'') \<in> set SKIP_FILES" by code_simp
  have h3: "strip (lower ''coverage.xml'') \<in> set SKIP_FILES" by code_simp
  have s: "map_of SPECIAL_FILES ''.travis.yml'' = Some ''config''" by code_simp
  have m: "category_of_multi_part ''.gitignore'' = Some ''config''" by code_simp
  have x: "category_by_suffixes ''coverage.xml'' = Some ''xml''" by code_simp
  from skip_files_take_precedence [OF h1] skip_files_take_precedence [OF h2]
    skip_files_take_precedence [OF h3] h1 s m x
  show ?thesis by blast
qed

text \<open>
  The lookup is by the lower-cased name, so the two entries of the skip-set that hold
  capitals are never hit: a file named \<open>.DS_Store\<close> or \<open>Thumbs.db\<close> is classified
  \<open>text\<close>.
\<close>

lemma mixed_case_skip_entries_unreachable:
  "get_file_category ''.DS_Store'' = ''text'' \<and> get_file_category ''Thumbs.db'' = ''text''"
  by code_simp

subsection \<open>String helpers\<close>

lemma startswith_iff: "startswith s p \<longleftrightarrow> (\<exists>post. s = p @ post)"
proof
  assume "startswith s p"
  then have "s = p @ drop (length p) s"
    by (metis append_take_drop_id startswith_def)
  then show "\<exists>post. s = p @ post" ..
next
  assume "\<exists>post. s = p @ post"
  then show "startswith s p" by (auto simp: startswith_def)
qed

lemma str_contains_iff: "str_contains sub s \<longleftrightarrow> (\<exists>pre post. s = pre @ sub @ post)"
proof (induction s)
  case Nil
  then show ?case by auto
next
  case (Cons c cs)
  show ?case
  proof
    assume "str_contains sub (c # cs)"
    then consider "startswith (c # cs) sub" | "str_contains sub cs" by auto
    then show "\<exists>pre post. c # cs = pre @ sub @ post"
    proof cases
      case 1
      then obtain post where "c # cs = sub @ post" using startswith_iff by blast
      then have "c # cs = [] @ sub @ post" by simp
      then show ?thesis by blast
    next
      case 2
      then obtain pre post where "cs = pre @ sub @ post" using Cons.IH by blast
      then have "c # cs = (c # pre) @ sub @ post" by simp
      then show ?thesis by blast
    qed
  next
    assume "\<exists>pre post. c # cs = pre @ sub @ post"
    then obtain pre post where eq: "c # cs = pre @ sub @ post" by blast
    show "str_contains sub (c # cs)"
    proof (cases pre)
      case Nil
      with eq have "startswith (c # cs) sub" using startswith_iff by auto
      then show ?thesis by simp
    next
      case (Cons d pre')
      with eq have "cs = pre' @ sub @ post" by simp
      then have "str_contains sub cs" using Cons.IH by blast
      then show ?thesis by simp
    qed
  qed
qed

subsection \<open>Basic filtering\<close>

lemma apply_basic_filtering_sound:
  "apply_basic_filtering files = Inr valid_files \<Longrightarrow> f \<in> set valid_files \<Longrightarrow>
   f \<in> set files \<and> validate_file_path (file_path f)"
proof (induction files arbitrary: valid_files)
  case Nil
  then show ?case by simp
next
  case (Cons file_info files)
  show ?case
  proof (cases "apply_basic_filtering files = Inr valid_files")
    case True
    with Cons.IH Cons.prems(2) show ?thesis by auto
  next
    case False
    with Cons.prems(1) obtain rest where
      rest: "apply_basic_filtering files = Inr rest" "valid_files = file_info # rest"
      and valid: "validate_file_path (file_path file_info)"
      by (auto simp: Let_def is_valid_path_def split: if_splits size_value.splits sum.splits)
    from Cons.prems(2) rest(2) consider "f = file_info" | "f \<in> set rest" by auto
    then show ?thesis
    proof cases
      case 1
      with valid show ?thesis by simp
    next
      case 2
      with Cons.IH rest(1) show ?thesis by auto
    qed
  qed
qed

lemma apply_basic_filtering_returns:
  "\<forall>f \<in> set files. file_size f \<noteq> NotANumber \<Longrightarrow> \<exists>valid_files. apply_basic_filtering files = Inr valid_files"
  by (induction files) (auto simp: Let_def split: size_value.splits)

text \<open>
  C10. Every record of the output of the basic filtering is a record of the input whose
  path is not empty, holds no \<open>..\<close>, holds no backslash, does not start with \<open>/\<close> or
  \<open>./\<close>, holds no \<open>/./\<close> and has no \<open>:\<close> as its second character: a file whose path
  meets one of these conditions is dropped.
\<close>

theorem basic_filtering_drops_unsafe_paths:
  assumes "apply_basic_filtering files = Inr valid_files" and "f \<in> set valid_files"
  shows "f \<in> set files
         \<and> file_path f \<noteq> []
         \<and> \<not> str_contains ''..'' (file_path f)
         \<and> \<not> str_contains [CHR 0x5C] (file_path f)
         \<and> \<not> startswith (file_path f) ''/''
         \<and> \<not> startswith (file_path f) ''./''
         \<and> \<not> str_contains ''/./'' (file_path f)
         \<and> \<not> (length (file_path f) > 1 \<and> file_path f ! 1 = CHR '':'')"
proof -
  from apply_basic_filtering_sound [OF assms]
  have "f \<in> set files" and "validate_file_path (file_path f)" by simp_all
  then show ?thesis
    by (simp add: validate_file_path_def split: if_splits)
qed

text \<open>
  An input with one safe path and one path for each condition, \<open>a..b.txt\<close> among them:
  only the safe one is kept.
\<close>

theorem basic_filtering_drops_unsafe_paths_witness:
  "apply_basic_filtering
     [example_file ''src/main.py'' ''import os'' (Size 40),
      example_file [] ''x'' (Size 1),
      example_file ''a..b.txt'' ''x'' (Size 1),
      example_file (''a'' @ [CHR 0x5C] @ ''b.txt'') ''x'' (Size 1),
      example_file ''/etc/passwd'' ''x'' (Size 1),
      example_file ''./a.txt'' ''x'' (Size 1),
      example_file ''a/./b.txt'' ''x'' (Size 1),
      example_file ''C:a.txt'' ''x'' (Size 1)]
   = Inr [example_file ''src/main.py'' ''import os'' (Size 40)]
   \<and> \<not> str_contains ''..'' (file_path (example_file ''src/main.py'' ''import os'' (Size 40)))
   \<and> str_contains ''..'' ''a..b.txt''"
proof -
  have run: "apply_basic_filtering
     [example_file ''src/main.py'' ''import os'' (Size 40),
      example_file [] ''x'' (Size 1),
      example_file ''a..b.txt'' ''x'' (Size 1),
      example_file (''a'' @ [CHR 0x5C] @ ''b.txt'') ''x'' (Size 1),
      example_file ''/etc/passwd'' ''x'' (Size 1),
      example_file ''./a.txt'' ''x'' (Size 1),
      example_file ''a/./b.txt'' ''x'' (Size 1),
      example_file ''C:a.txt'' ''x'' (Size 1)]
   = Inr [example_file ''src/main.py'' ''import os'' (Size 40)]"
    by code_simp
  have dots: "str_contains ''..'' ''a..b.txt''" by code_simp
  from basic_filtering_drops_unsafe_paths [OF run, of "example_file ''src/main.py'' ''import os'' (Size 40)"]
  have "\<not> str_contains ''..'' (file_path (example_file ''src/main.py'' ''import os'' (Size 40)))"
    by simp
  with run dots show ?thesis by blast
qed

subsection \<open>The pipeline without valid files\<close>

text \<open>
  C3. When the basic filtering keeps no file, \<open>process_files\<close> returns the empty
  selection with the analysis \<open>{"error": "No valid files to process"}\<close>; it returns, it does
  not raise. The filtering keeps no file of the empty list.
\<close>

theorem process_files_without_valid_files:
  assumes "apply_basic_filtering files = Inr []"
  shows "fst (process_files rt stats files ctx) = Inr ([], ErrorInfo ''No valid files to process'')
         \<and> apply_basic_filtering [] = Inr []"
  using assms by (simp add: process_files_def Let_def)

theorem process_files_without_valid_files_witness:
  "apply_basic_filtering [example_file ''image.jpg'' [] (Size 500000)] = Inr []
   \<and> fst (process_files example_runtime example_stats
             [example_file ''image.jpg'' [] (Size 500000)]
             \<lparr>max_total_size = None, max_files = None\<rparr>)
       = Inr ([], ErrorInfo ''No valid files to process'')
   \<and> fst (process_files example_runtime example_stats [] \<lparr>max_total_size = None, max_files = None\<rparr>)
       = Inr ([], ErrorInfo ''No valid files to process'')"
proof -
  have filtered: "apply_basic_filtering [example_file ''image.jpg'' [] (Size 500000)] = Inr []"
    by code_simp
  have none: "apply_basic_filtering [] = Inr []" by simp
  from process_files_without_valid_files [OF filtered] process_files_without_valid_files [OF none]
    filtered
  show ?thesis by blast
qed

subsection \<open>Language detection by content\<close>

text \<open>
  C6, as the claim states it, fails: for the empty content the function returns
  \<open>unknown\<close> before it looks at the file name.
\<close>

theorem empty_content_is_unknown_counterexample:
  "detect_language_by_extension ''main.py'' = ''python''
   \<and> detect_language_by_content example_runtime [] ''main.py'' = ''unknown''
   \<and> detect_language_by_content example_runtime [] ''main.py''
       \<noteq> detect_language_by_extension ''main.py''"
  by code_simp

text \<open>
  C6, amended. For every non-empty content and every file name whose extension resolves
  to a language, \<open>detect_language_by_content\<close> returns that language, whatever the
  runtime finds in the content: the content is inspected only when the name does not
  resolve. For the empty content it returns \<open>unknown\<close>, whatever the file name.
\<close>

theorem extension_decides_for_nonempty_content:
  "(content \<noteq> [] \<and> detect_language_by_extension filename \<noteq> ''unknown''
      \<longrightarrow> detect_language_by_content rt content filename
           = detect_language_by_extension filename)
   \<and> detect_language_by_content rt [] any_filename = ''unknown''"
proof -
  have "detect_language_by_content rt content filename = detect_language_by_extension filename"
    if "content \<noteq> []" and resolves: "detect_language_by_extension filename \<noteq> ''unknown''"
  proof -
    have "filename \<noteq> []"
      using resolves by (auto simp: detect_language_by_extension_def)
    with that show ?thesis
      by (simp add: detect_language_by_content_def)
  qed
  moreover have "detect_language_by_content rt [] any_filename = ''unknown''"
    by (simp add: detect_language_by_content_def)
  ultimately show ?thesis by blast
qed

text \<open>
  A shell script's first line in a file named \<open>main.py\<close> is still Python; the empty
  content is \<open>unknown\<close> also for \<open>README\<close>, a name without extension.
\<close>

theorem extension_decides_for_nonempty_content_witness:
  "''#!/bin/sh'' \<noteq> [] \<and> detect_language_by_extension ''main.py'' \<noteq> ''unknown''
   \<and> detect_language_by_content example_runtime ''#!/bin/sh'' ''main.py'' = ''python''
   \<and> detect_language_by_extension ''README'' = ''unknown''
   \<and> detect_language_by_content example_runtime [] ''README'' = ''unknown''"
proof -
  have a: "''#!/bin/sh'' \<noteq> []" by simp
  have b: "detect_language_by_extension ''main.py'' \<noteq> ''unknown''" by code_simp
  have c: "detect_language_by_extension ''main.py'' = ''python''" by code_simp
  have d: "detect_language_by_extension ''README'' = ''unknown''" by code_simp
  from extension_decides_for_nonempty_content
         [of "''#!/bin/sh''" "''main.py''" example_runtime "''README''"] a b c d
  show ?thesis by simp
qed

subsection \<open>The dependency extractor\<close>


lemma collect_deps_distinct:
  "distinct all_deps \<Longrightarrow> distinct (collect_deps extractor files all_deps)"
  by (induction files arbitrary: all_deps) (auto simp: Let_def split: sum.splits)

lemma extractors_keys:
  "map_of extractors lang = None \<longleftrightarrow>
   lang \<notin> set [''python'', ''javascript'', ''typescript'', ''java'', ''go'', ''rust'', ''csharp'']"
  by (simp add: extractors_def)

text \<open>
  C8. Whatever the files and the primary language, \<open>extract_dependencies\<close> returns a
  sorted list without duplicates of at most 30 names, each of 2 to 49 characters and not
  starting with a dot; for a primary language without a registered parser the list is
  empty.
\<close>

theorem extract_dependencies_contract:
  "sorted (extract_dependencies rt files primary_language)
   \<and> distinct (extract_dependencies rt files primary_language)
   \<and> length (extract_dependencies rt files primary_language) \<le> 30
   \<and> (\<forall>dep \<in> set (extract_dependencies rt files primary_language).
         2 \<le> length dep \<and> length dep \<le> 49 \<and> \<not> startswith dep ''.'')
   \<and> (primary_language \<notin> set [''python'', ''javascript'', ''typescript'', ''java'', ''go'',
                                  ''rust'', ''csharp'']
        \<longrightarrow> extract_dependencies rt files primary_language = [])"
proof (cases "map_of extractors primary_language")
  case None
  then show ?thesis by (simp add: extract_dependencies_def)
next
  case (Some extractor)
  define all_deps where "all_deps = collect_deps (extractor rt) files []"
  define filtered_deps where
    "filtered_deps = filter (\<lambda>dep. length dep > 1 \<and> length dep < 50 \<and> \<not> startswith dep ''.'') all_deps"
  have result: "extract_dependencies rt files primary_language = take 30 (sort filtered_deps)"
    using Some by (simp add: extract_dependencies_def all_deps_def filtered_deps_def)
  have "distinct all_deps"
    unfolding all_deps_def by (rule collect_deps_distinct) simp
  then have d: "distinct (take 30 (sort filtered_deps))"
    by (simp add: filtered_deps_def)
  have s: "sorted (take 30 (sort filtered_deps))"
    by (simp add: sorted_wrt_take)
  have "set (take 30 (sort filtered_deps)) \<subseteq> set filtered_deps"
    using set_take_subset [of 30 "sort filtered_deps"] by simp
  then have m: "\<forall>dep \<in> set (take 30 (sort filtered_deps)).
                  2 \<le> length dep \<and> length dep \<le> 49 \<and> \<not> startswith dep ''.''"
    by (auto simp: filtered_deps_def)
  have registered: "primary_language
      \<in> set [''python'', ''javascript'', ''typescript'', ''java'', ''go'', ''rust'', ''csharp'']"
    using Some extractors_keys [of primary_language] by auto
  from d s m registered show ?thesis
    unfolding result by simp
qed


theorem extract_dependencies_contract_witness:
  "extract_dependencies example_runtime
     [example_file ''requirements.txt''
        (''requests>=2.25.0'' @ [CHR 0x0A] @ ''flask==2.3.2'' @ [CHR 0x0A] @ ''# comment''
         @ [CHR 0x0A] @ ''x'' @ [CHR 0x0A] @ ''flask'')
        (Size 40)]
     ''python''
   = [''flask'', ''requests'']
   \<and> sorted [''flask'', ''requests'']
   \<and> ''ruby'' \<notin> set [''python'', ''javascript'', ''typescript'', ''java'', ''go'', ''rust'', ''csharp'']
   \<and> extract_dependencies example_runtime
         [example_file ''requirements.txt'' ''requests>=2.25.0'' (Size 40)] ''ruby'' = []"
proof -
  have run: "extract_dependencies example_runtime
     [example_file ''requirements.txt''
        (''requests>=2.25.0'' @ [CHR 0x0A] @ ''flask==2.3.2'' @ [CHR 0x0A] @ ''# comment''
         @ [CHR 0x0A] @ ''x'' @ [CHR 0x0A] @ ''flask'')
        (Size 40)]
     ''python''
   = [''flask'', ''requests'']"
    by code_simp
  have other: "''ruby'' \<notin> set [''python'', ''javascript'', ''typescript'', ''java'', ''go'', ''rust'', ''csharp'']"
    by simp
  from extract_dependencies_contract [of example_runtime
      "[example_file ''requirements.txt''
        (''requests>=2.25.0'' @ [CHR 0x0A] @ ''flask==2.3.2'' @ [CHR 0x0A] @ ''# comment''
         @ [CHR 0x0A] @ ''x'' @ [CHR 0x0A] @ ''flask'')
        (Size 40)]" "''python''"]
  have "sorted [''flask'', ''requests'']" unfolding run by blast
  moreover from extract_dependencies_contract [of example_runtime
      "[example_file ''requirements.txt'' ''requests>=2.25.0'' (Size 40)]" "''ruby''"] other
  have "extract_dependencies example_runtime
         [example_file ''requirements.txt'' ''requests>=2.25.0'' (Size 40)] ''ruby'' = []"
    by blast
  ultimately show ?thesis using run other by blast
qed

subsection \<open>Complexity\<close>

lemma splitlines_from_nonempty: "s \<noteq> [] \<Longrightarrow> splitlines_from cur s \<noteq> []"
  by (induction cur s rule: splitlines_from.induct) auto

lemma strip_empty: "strip [] = []"
  by (simp add: strip_def lstrip_def rstrip_def)

lemma complexity_patterns_fallback:
  "map_of complexity_indicators lang = None \<Longrightarrow> complexity_patterns lang = complexity_patterns ''python''"
  by (cases "map_of complexity_indicators ''python''") (simp_all add: complexity_patterns_def)

text \<open>
  C7. \<open>calculate_complexity\<close> returns a value between 1 and 10: 1 for an empty or
  whitespace-only content, and otherwise 1 + 9 * (matches / lines) capped at 10, the
  matches counted with the patterns of the language, or with the Python patterns when the
  language has no list of its own. (Floats are idealised as exact rationals.)
\<close>

theorem calculate_complexity_range:
  "1 \<le> calculate_complexity rt content lang
   \<and> calculate_complexity rt content lang \<le> 10
   \<and> (content = [] \<or> strip content = [] \<longrightarrow> calculate_complexity rt content lang = 1)
   \<and> (strip content \<noteq> [] \<longrightarrow>
        calculate_complexity rt content lang
        = min (1 + 9 * (of_nat (complexity_count rt content lang)
                        / of_nat (length (splitlines content)))) 10)
   \<and> (map_of complexity_indicators lang = None \<longrightarrow>
        complexity_count rt content lang = complexity_count rt content ''python'')"
proof -
  have fallback: "map_of complexity_indicators lang = None \<longrightarrow>
        complexity_count rt content lang = complexity_count rt content ''python''"
    by (simp add: complexity_count_def complexity_patterns_fallback)
  show ?thesis
  proof (cases "content = [] \<or> strip content = []")
    case True
    then have "calculate_complexity rt content lang = 1"
      by (auto simp: calculate_complexity_def)
    with True fallback show ?thesis by (auto simp: strip_empty)
  next
    case False
    then have "content \<noteq> []" by simp
    then have lines: "length (splitlines content) \<noteq> 0"
      using splitlines_from_nonempty [of content "[]"] by (simp add: splitlines_def)
    have ratio: "(0::rat) \<le> of_nat (complexity_count rt content lang) / of_nat (length (splitlines content))"
      by simp
    have eq: "calculate_complexity rt content lang
        = min (1 + 9 * (of_nat (complexity_count rt content lang)
                        / of_nat (length (splitlines content)))) 10"
      using False lines by (simp add: calculate_complexity_def Let_def mult.commute)
    from ratio have "(1::rat) \<le> min (1 + 9 * (of_nat (complexity_count rt content lang)
                        / of_nat (length (splitlines content)))) 10"
      by simp
    with eq False fallback show ?thesis by simp
  qed
qed


theorem calculate_complexity_range_witness:
  "strip (''a => b'' @ [CHR 0x0A] @ ''c'') \<noteq> []
   \<and> calculate_complexity example_runtime (''a => b'' @ [CHR 0x0A] @ ''c'') ''javascript'' = 11 / 2
   \<and> calculate_complexity example_runtime ''=> =>'' ''typescript'' = 10
   \<and> strip ''   '' = []
   \<and> calculate_complexity example_runtime ''   '' ''python'' = 1
   \<and> map_of complexity_indicators ''cobol'' = None
   \<and> complexity_count example_runtime ''if'' ''cobol'' = complexity_count example_runtime ''if'' ''python''"
proof -
  have a: "strip (''a => b'' @ [CHR 0x0A] @ ''c'') \<noteq> []" by code_simp
  have b: "calculate_complexity example_runtime (''a => b'' @ [CHR 0x0A] @ ''c'') ''javascript'' = 11 / 2"
    by code_simp
  have c: "calculate_complexity example_runtime ''=> =>'' ''typescript'' = 10" by code_simp
  have d: "strip ''   '' = []" by code_simp
  have e: "map_of complexity_indicators ''cobol'' = None" by code_simp
  from calculate_complexity_range [of example_runtime "''   ''" "''python''"] d
  have f: "calculate_complexity example_runtime ''   '' ''python'' = 1" by blast
  from calculate_complexity_range [of example_runtime "''if''" "''cobol''"] e
  have g: "complexity_count example_runtime ''if'' ''cobol'' = complexity_count example_runtime ''if'' ''python''"
    by blast
  from a b c d e f g show ?thesis by blast
qed

subsection \<open>The selection engine\<close>


lemma sum_sizes_snoc:
  "sum_sizes selected = Inr t \<Longrightarrow> file_size f = Size sz \<Longrightarrow> sum_sizes (selected @ [f]) = Inr (t + sz)"
  by (induction selected arbitrary: t) (auto split: size_value.splits sum.splits)

lemma within_budget_initial: "within_budget size_limit count_limit ([], 0)"
  by (simp add: within_budget_def)

lemma within_budget_append:
  assumes inv: "within_budget size_limit count_limit (selected, t)"
    and sz: "file_size f = Size sz"
    and fits: "\<not> t + sz > size_limit"
    and room: "\<not> int (length selected) \<ge> count_limit"
  shows "within_budget size_limit count_limit (selected @ [f], t + sz)"
proof -
  from inv have sum: "sum_sizes selected = Inr t"
    and prefixes: "\<forall>n. 0 < n \<and> n \<le> length selected \<longrightarrow>
             (\<exists>u. sum_sizes (take n selected) = Inr u \<and> u \<le> size_limit)"
    by (simp_all add: within_budget_def)
  have whole: "sum_sizes (selected @ [f]) = Inr (t + sz)"
    using sum sz by (rule sum_sizes_snoc)
  have "\<exists>u. sum_sizes (take n (selected @ [f])) = Inr u \<and> u \<le> size_limit"
    if n: "0 < n" "n \<le> length (selected @ [f])" for n
  proof (cases "n \<le> length selected")
    case True
    with prefixes n(1) show ?thesis by simp
  next
    case False
    with n(2) have "take n (selected @ [f]) = selected @ [f]" by simp
    with whole fits show ?thesis by simp
  qed
  with whole fits room show ?thesis
    by (simp add: within_budget_def)
qed

lemma select_tier_within_budget:
  "select_tier size_limit count_limit tier_files state = Inr state' \<Longrightarrow>
   within_budget size_limit count_limit state \<Longrightarrow> within_budget size_limit count_limit state'"
proof (induction size_limit count_limit tier_files state rule: select_tier.induct)
  case (1 size_limit count_limit selected_files running_size)
  then show ?case by simp
next
  case (2 size_limit count_limit file_info tier_files selected_files running_size)
  from "2.prems"(1) obtain sz where sz: "file_size file_info = Size sz"
    by (cases "file_size file_info") auto
  show ?case
  proof (cases "running_size + sz > size_limit")
    case True
    with "2.prems" "2.IH"(1) sz show ?thesis
      by (auto split: if_splits)
  next
    case over: False
    show ?thesis
    proof (cases "int (length selected_files) \<ge> count_limit")
      case True
      with "2.prems" over sz show ?thesis by simp
    next
      case False
      with "2.prems"(1) over sz have
        "select_tier size_limit count_limit tier_files
           (selected_files @ [file_info], running_size + sz) = Inr state'"
        by simp
      moreover have "within_budget size_limit count_limit
           (selected_files @ [file_info], running_size + sz)"
        using "2.prems"(2) sz over False by (rule within_budget_append)
      ultimately show ?thesis
        using "2.IH"(2) sz over False by simp
    qed
  qed
qed

lemma select_tiers_within_budget:
  "select_tiers size_limit count_limit tiers state = Inr state' \<Longrightarrow>
   within_budget size_limit count_limit state \<Longrightarrow> within_budget size_limit count_limit state'"
proof (induction tiers arbitrary: state)
  case Nil
  then show ?case by simp
next
  case (Cons tier_files tiers)
  from Cons.prems(1) obtain mid where
    mid: "select_tier size_limit count_limit tier_files state = Inr mid"
    by (cases "select_tier size_limit count_limit tier_files state") auto
  from mid Cons.prems(2) have inv: "within_budget size_limit count_limit mid"
    by (rule select_tier_within_budget)
  obtain selected_files running_size where m: "mid = (selected_files, running_size)"
    by (cases mid)
  show ?case
  proof (cases "int (length selected_files) \<ge> count_limit
             \<or> (of_int running_size :: rat) \<ge> of_int size_limit * (9 / 10)")
    case True
    with Cons.prems(1) mid m have "state' = mid" by simp
    with inv show ?thesis by simp
  next
    case False
    with Cons.prems(1) mid m have
      "select_tiers size_limit count_limit tiers mid = Inr state'" by simp
    with inv Cons.IH show ?thesis by blast
  qed
qed

lemma perform_smart_selection_within_budget:
  assumes "perform_smart_selection prioritized_files ctx = Inr selected"
  shows "\<exists>t. within_budget (size_limit_of ctx) (count_limit_of ctx) (selected, t)"
proof (cases "prioritized_files = []")
  case True
  with assms have "selected = []" by (simp add: perform_smart_selection_def)
  then show ?thesis using within_budget_initial by blast
next
  case False
  with assms obtain t where
    "select_tiers (size_limit_of ctx) (count_limit_of ctx)
       (map snd (group_by_priority_tiers prioritized_files)) ([], 0) = Inr (selected, t)"
    by (auto simp: perform_smart_selection_def Let_def split: sum.splits)
  then have "within_budget (size_limit_of ctx) (count_limit_of ctx) (selected, t)"
    using within_budget_initial by (rule select_tiers_within_budget)
  then show ?thesis ..
qed

text \<open>
  C1, as the claim states it for every context, fails for a negative count budget: with
  \<open>max_files = -1\<close> the count check stops the loop before the first append, and the empty
  list returned has 0 records, more than the budget.
\<close>

theorem negative_count_budget_counterexample:
  "perform_smart_selection [prioritized_file ''a'' 50 900]
     \<lparr>max_total_size = Some 100, max_files = Some (- 1)\<rparr> = Inr []
   \<and> count_limit_of \<lparr>max_total_size = Some 100, max_files = Some (- 1)\<rparr> = - 1
   \<and> count_limit_of \<lparr>max_total_size = Some 100, max_files = Some (- 1)\<rparr>
       < int (length ([] :: file_record list))"
  by code_simp

text \<open>
  C1, amended. The list the selection returns has a total size of at most
  \<open>max_total_size\<close> whenever it is not empty or that budget is not negative, and at most
  \<open>max_files\<close> records whenever it is not empty or that budget is not negative. No
  overflow is admitted, so the size bound holds without the exception the claim allows
  for. What is left out is the empty selection under a negative budget, whose total 0 and
  length 0 are above it.
\<close>

theorem smart_selection_within_budgets:
  assumes "perform_smart_selection prioritized_files ctx = Inr selected"
  shows "\<exists>t. sum_sizes selected = Inr t
             \<and> (selected \<noteq> [] \<or> 0 \<le> size_limit_of ctx \<longrightarrow> t \<le> size_limit_of ctx)
             \<and> (selected \<noteq> [] \<or> 0 \<le> count_limit_of ctx
                  \<longrightarrow> int (length selected) \<le> count_limit_of ctx)"
proof -
  from perform_smart_selection_within_budget [OF assms] obtain t where
    inv: "within_budget (size_limit_of ctx) (count_limit_of ctx) (selected, t)" ..
  show ?thesis
  proof (cases "selected = []")
    case True
    with inv have "sum_sizes selected = Inr 0 \<and> t = 0"
      by (simp add: within_budget_def)
    with True show ?thesis by simp
  next
    case False
    with inv show ?thesis by (auto simp: within_budget_def)
  qed
qed

theorem smart_selection_within_budgets_witness:
  "perform_smart_selection
     [prioritized_file ''a'' 50 900, prioritized_file ''b'' 60 850, prioritized_file ''c'' 5 800,
      prioritized_file ''d'' 30 700, prioritized_file ''e'' 10 10]
     example_context
   = Inr [prioritized_file ''a'' 50 900, prioritized_file ''d'' 30 700, prioritized_file ''e'' 10 10]
   \<and> 0 \<le> size_limit_of example_context \<and> 0 \<le> count_limit_of example_context
   \<and> sum_sizes [prioritized_file ''a'' 50 900, prioritized_file ''d'' 30 700,
                 prioritized_file ''e'' 10 10] = Inr 90
   \<and> (\<exists>t. sum_sizes [prioritized_file ''a'' 50 900, prioritized_file ''d'' 30 700,
                       prioritized_file ''e'' 10 10] = Inr t
           \<and> t \<le> size_limit_of example_context
           \<and> int (length [prioritized_file ''a'' 50 900, prioritized_file ''d'' 30 700,
                             prioritized_file ''e'' 10 10]) \<le> count_limit_of example_context)"
proof -
  have run: "perform_smart_selection
     [prioritized_file ''a'' 50 900, prioritized_file ''b'' 60 850, prioritized_file ''c'' 5 800,
      prioritized_file ''d'' 30 700, prioritized_file ''e'' 10 10]
     example_context
   = Inr [prioritized_file ''a'' 50 900, prioritized_file ''d'' 30 700, prioritized_file ''e'' 10 10]"
    by code_simp
  have s: "0 \<le> size_limit_of example_context" by code_simp
  have c: "0 \<le> count_limit_of example_context" by code_simp
  have t: "sum_sizes [prioritized_file ''a'' 50 900, prioritized_file ''d'' 30 700,
                 prioritized_file ''e'' 10 10] = Inr 90"
    by code_simp
  from smart_selection_within_budgets [OF run] s c
  have "\<exists>t. sum_sizes [prioritized_file ''a'' 50 900, prioritized_file ''d'' 30 700,
                       prioritized_file ''e'' 10 10] = Inr t
           \<and> t \<le> size_limit_of example_context
           \<and> int (length [prioritized_file ''a'' 50 900, prioritized_file ''d'' 30 700,
                             prioritized_file ''e'' 10 10]) \<le> count_limit_of example_context"
    by blast
  with run s c t show ?thesis by blast
qed

text \<open>
  C9, as the claim states it ("always, with no exception"), fails for a negative byte
  budget: with \<open>max_total_size = -1\<close> the first file does not fit and is not small, the
  loop stops, and the empty selection returned has total 0, above the budget.
\<close>

theorem negative_size_budget_counterexample:
  "perform_smart_selection [prioritized_file ''a'' 50 900]
     \<lparr>max_total_size = Some (- 1), max_files = Some 10\<rparr> = Inr []
   \<and> sum_sizes ([] :: file_record list) = Inr 0
   \<and> size_limit_of \<lparr>max_total_size = Some (- 1), max_files = Some 10\<rparr> = - 1
   \<and> size_limit_of \<lparr>max_total_size = Some (- 1), max_files = Some 10\<rparr> < 0"
  by code_simp

text \<open>
  C9, amended. No append exceeds the byte budget: the size reached after each single
  append is at most \<open>max_total_size\<close>, since a file is appended only when the size so far
  plus its own fits; a small file that does not fit is skipped, never admitted. So the
  total of a non-empty selection is within the budget, and so is the total of the empty
  one when the budget is not negative.
\<close>

theorem smart_selection_never_overflows:
  assumes "perform_smart_selection prioritized_files ctx = Inr selected"
  shows "(\<forall>n. 0 < n \<and> n \<le> length selected \<longrightarrow>
            (\<exists>t. sum_sizes (take n selected) = Inr t \<and> t \<le> size_limit_of ctx))
         \<and> (\<exists>t. sum_sizes selected = Inr t
                 \<and> (selected \<noteq> [] \<or> 0 \<le> size_limit_of ctx \<longrightarrow> t \<le> size_limit_of ctx))"
proof -
  from perform_smart_selection_within_budget [OF assms] obtain t where
    inv: "within_budget (size_limit_of ctx) (count_limit_of ctx) (selected, t)" ..
  then have "sum_sizes selected = Inr t
      \<and> (selected \<noteq> [] \<or> 0 \<le> size_limit_of ctx \<longrightarrow> t \<le> size_limit_of ctx)"
    by (cases "selected = []") (auto simp: within_budget_def)
  with inv show ?thesis by (auto simp: within_budget_def)
qed

text \<open>
  With 95 of 100 bytes taken, the 8-byte file does not fit and is skipped (it is under a
  tenth of the budget), the 5-byte file after it fits exactly, and the 30-byte file
  ends the tier.
\<close>

theorem smart_selection_never_overflows_witness:
  "perform_smart_selection
     [prioritized_file ''a'' 95 900, prioritized_file ''b'' 8 850, prioritized_file ''c'' 5 800,
      prioritized_file ''d'' 30 800]
     example_context
   = Inr [prioritized_file ''a'' 95 900, prioritized_file ''c'' 5 800]
   \<and> sum_sizes [prioritized_file ''a'' 95 900, prioritized_file ''c'' 5 800] = Inr 100
   \<and> size_limit_of example_context = 100
   \<and> (\<exists>t. sum_sizes (take 1 [prioritized_file ''a'' 95 900, prioritized_file ''c'' 5 800]) = Inr t
           \<and> t \<le> size_limit_of example_context)"
proof -
  have run: "perform_smart_selection
     [prioritized_file ''a'' 95 900, prioritized_file ''b'' 8 850, prioritized_file ''c'' 5 800,
      prioritized_file ''d'' 30 800]
     example_context
   = Inr [prioritized_file ''a'' 95 900, prioritized_file ''c'' 5 800]"
    by code_simp
  have t: "sum_sizes [prioritized_file ''a'' 95 900, prioritized_file ''c'' 5 800] = Inr 100"
    by code_simp
  have l: "size_limit_of example_context = 100" by code_simp
  from smart_selection_never_overflows [OF run]
  have every: "\<forall>n. 0 < n \<and> n \<le> length [prioritized_file ''a'' 95 900, prioritized_file ''c'' 5 800]
          \<longrightarrow> (\<exists>t. sum_sizes (take n [prioritized_file ''a'' 95 900, prioritized_file ''c'' 5 800])
                      = Inr t
                    \<and> t \<le> size_limit_of example_context)"
    by blast
  have "0 < (1::nat) \<and> (1::nat) \<le> length [prioritized_file ''a'' 95 900, prioritized_file ''c'' 5 800]"
    by simp
  with every
  have "\<exists>t. sum_sizes (take 1 [prioritized_file ''a'' 95 900, prioritized_file ''c'' 5 800]) = Inr t
           \<and> t \<le> size_limit_of example_context"
    by blast
  with run t l show ?thesis by blast
qed

text \<open>The selection returns whenever every size is a number.\<close>

lemma select_tier_returns:
  "\<forall>f \<in> set tier_files. file_size f \<noteq> NotANumber \<Longrightarrow>
   \<exists>state'. select_tier size_limit count_limit tier_files state = Inr state'"
proof (induction size_limit count_limit tier_files state rule: select_tier.induct)
  case (1 size_limit count_limit selected_files running_size)
  then show ?case by simp
next
  case (2 size_limit count_limit file_info tier_files selected_files running_size)
  then show ?case by (cases "file_size file_info") auto
qed

lemma select_tiers_returns:
  "\<forall>tier_files \<in> set tiers. \<forall>f \<in> set tier_files. file_size f \<noteq> NotANumber \<Longrightarrow>
   \<exists>state'. select_tiers size_limit count_limit tiers state = Inr state'"
proof (induction tiers arbitrary: state)
  case Nil
  then show ?case by simp
next
  case (Cons tier_files tiers)
  then obtain mid where "select_tier size_limit count_limit tier_files state = Inr mid"
    using select_tier_returns [of tier_files size_limit count_limit state] by auto
  with Cons show ?case by (auto split: prod.splits)
qed

lemma perform_smart_selection_returns:
  assumes "\<forall>f \<in> set prioritized_files. file_size f \<noteq> NotANumber"
  shows "\<exists>selected. perform_smart_selection prioritized_files ctx = Inr selected"
proof -
  have "\<forall>tier_files \<in> set (map snd (group_by_priority_tiers prioritized_files)).
          \<forall>f \<in> set tier_files. file_size f \<noteq> NotANumber"
    using assms by (auto simp: group_by_priority_tiers_def)
  from select_tiers_returns [OF this] show ?thesis
    by (auto simp: perform_smart_selection_def Let_def split: sum.splits prod.splits) (metis Inl_Inr_False)
qed

subsection \<open>The prioritizer\<close>


lemma with_final_priority_props:
  "file_priority (with_final_priority e dl cx b l i fw c sf cb d)
     = Some (max (b + l + i + fw + c + sf + cb - d) 10)
   \<and> file_priority_breakdown (with_final_priority e dl cx b l i fw c sf cb d)
     = Some [(''base'', b), (''language'', l), (''importance'', i), (''framework'', fw),
             (''complexity'', c), (''size'', sf), (''content'', cb), (''depth_penalty'', - d)]"
  by (simp add: with_final_priority_def)

lemma calculate_priority_score_shape:
  assumes "calculate_priority_score rt f target = Inr g"
  shows "(file_path f = [] \<and> g = f\<lparr>file_priority := Some 50\<rparr>)
         \<or> (file_path f \<noteq> [] \<and> (\<exists>dl cx b l i fw c sf cb d. g = with_final_priority f dl cx b l i fw c sf cb d))"
proof (cases "file_path f = []")
  case True
  with assms show ?thesis by (simp add: calculate_priority_score_def)
next
  case False
  show ?thesis
  proof (cases "calculate_size_factor (file_size f)")
    case (Inl e)
    with assms False show ?thesis
      unfolding calculate_priority_score_def Let_def
      by (simp only: if_False sum.case sum.distinct)
  next
    case (Inr size_factor)
    with assms False have "\<exists>dl cx b l i fw c sf cb d. g = with_final_priority f dl cx b l i fw c sf cb d"
      unfolding calculate_priority_score_def Let_def
      by (simp only: if_False sum.case sum.inject) blast
    with False show ?thesis by blast
  qed
qed


lemma scored_priority_at_least_10:
  assumes "calculate_priority_score rt f target = Inr g"
  shows "\<exists>p. file_priority g = Some p \<and> 10 \<le> p"
  using calculate_priority_score_shape [OF assms] with_final_priority_props by auto

lemma scored_priority_is_clamped_sum:
  assumes "calculate_priority_score rt f target = Inr g" and "file_path f \<noteq> []"
  shows "\<exists>bd. file_priority_breakdown g = Some bd
           \<and> map fst bd = [''base'', ''language'', ''importance'', ''framework'', ''complexity'',
                            ''size'', ''content'', ''depth_penalty'']
           \<and> file_priority g = Some (max (sum_list (map snd bd)) 10)"
proof -
  from calculate_priority_score_shape [OF assms(1)] assms(2)
  obtain dl cx b l i fw c sf cb d where g: "g = with_final_priority f dl cx b l i fw c sf cb d"
    by blast
  let ?bd = "[(''base'', b), (''language'', l), (''importance'', i), (''framework'', fw),
              (''complexity'', c), (''size'', sf), (''content'', cb), (''depth_penalty'', - d)]"
  have "file_priority_breakdown g = Some ?bd"
    and "file_priority g = Some (max (b + l + i + fw + c + sf + cb - d) 10)"
    using with_final_priority_props [of f dl cx b l i fw c sf cb d] g by simp_all
  moreover have "sum_list (map snd ?bd) = b + l + i + fw + c + sf + cb - d" by simp
  moreover have "map fst ?bd = [''base'', ''language'', ''importance'', ''framework'',
                                ''complexity'', ''size'', ''content'', ''depth_penalty'']"
    by simp
  ultimately show ?thesis by metis
qed

lemma score_or_default_at_least_10:
  "\<exists>p. file_priority (score_or_default rt target f) = Some p \<and> 10 \<le> p"
proof (cases "calculate_priority_score rt f target")
  case (Inl e)
  then show ?thesis by (simp add: score_or_default_def)
next
  case (Inr g)
  with scored_priority_at_least_10 [OF Inr] show ?thesis by (simp add: score_or_default_def)
qed

lemma size_factor_raises:
  "calculate_size_factor sz = Inl e \<longleftrightarrow> sz = NotANumber \<and> e = TypeError"
  by (cases sz) (auto simp: calculate_size_factor_def)

lemma scoring_raises_iff:
  "(\<exists>e. calculate_priority_score rt f target = Inl e) \<longleftrightarrow> file_path f \<noteq> [] \<and> file_size f = NotANumber"
proof (cases "file_path f = []")
  case True
  then show ?thesis by (simp add: calculate_priority_score_def)
next
  case False
  show ?thesis
  proof (cases "calculate_size_factor (file_size f)")
    case (Inl e)
    with False have "calculate_priority_score rt f target = Inl e"
      unfolding calculate_priority_score_def Let_def
      by (simp only: if_False sum.case)
    with False Inl show ?thesis using size_factor_raises by auto
  next
    case (Inr size_factor)
    with False have "\<exists>g. calculate_priority_score rt f target = Inr g"
      unfolding calculate_priority_score_def Let_def
      by (simp only: if_False sum.case) blast
    moreover from Inr have "file_size f \<noteq> NotANumber"
      using size_factor_raises [of "file_size f"] by (auto simp: calculate_size_factor_def)
    ultimately show ?thesis by auto
  qed
qed

lemma prioritize_files_with_target:
  assumes "target_language \<noteq> [] \<and> target = target_language
           \<or> target_language = [] \<and> detect_primary_language rt files = Inr target"
  shows "prioritize_files rt files target_language
         = Inr (sort_key (\<lambda>x. - priority_of x) (map (score_or_default rt target) files))"
  using assms by (auto simp: prioritize_files_def)

text \<open>
  C2. Once the target language is known (given, or detected from the files),
  \<open>prioritize_files\<close> returns one record for every input record, each with an integer
  priority of at least 10. A record whose scoring returns and whose path is not empty
  carries the eight contributions of \<open>priority_breakdown\<close>, and its priority is their sum,
  raised to 10 when it is lower. A record whose scoring raises is emitted with priority 100,
  and the batch goes on with the next record.
\<close>

theorem prioritize_files_priorities:
  assumes "target_language \<noteq> [] \<and> target = target_language
           \<or> target_language = [] \<and> detect_primary_language rt files = Inr target"
  shows "\<exists>prioritized.
           prioritize_files rt files target_language = Inr prioritized
           \<and> length prioritized = length files
           \<and> (\<forall>g \<in> set prioritized. \<exists>p. file_priority g = Some p \<and> 10 \<le> p)
           \<and> (\<forall>f \<in> set files.
                 case calculate_priority_score rt f target of
                   Inl e \<Rightarrow> f\<lparr>file_priority := Some 100\<rparr> \<in> set prioritized
                 | Inr g \<Rightarrow>
                     g \<in> set prioritized
                     \<and> (file_path f \<noteq> [] \<longrightarrow>
                          (\<exists>bd. file_priority_breakdown g = Some bd
                                \<and> map fst bd = [''base'', ''language'', ''importance'',
                                                 ''framework'', ''complexity'', ''size'',
                                                 ''content'', ''depth_penalty'']
                                \<and> file_priority g = Some (max (sum_list (map snd bd)) 10))))"
proof -
  define prioritized where
    "prioritized = sort_key (\<lambda>x. - priority_of x) (map (score_or_default rt target) files)"
  have run: "prioritize_files rt files target_language = Inr prioritized"
    unfolding prioritized_def using assms by (rule prioritize_files_with_target)
  have len: "length prioritized = length files"
    by (simp add: prioritized_def)
  have elems: "set prioritized = score_or_default rt target ` set files"
    by (simp add: prioritized_def)
  have low: "\<forall>g \<in> set prioritized. \<exists>p. file_priority g = Some p \<and> 10 \<le> p"
    unfolding elems using score_or_default_at_least_10 by blast
  have each: "case calculate_priority_score rt f target of
                   Inl e \<Rightarrow> f\<lparr>file_priority := Some 100\<rparr> \<in> set prioritized
                 | Inr g \<Rightarrow>
                     g \<in> set prioritized
                     \<and> (file_path f \<noteq> [] \<longrightarrow>
                          (\<exists>bd. file_priority_breakdown g = Some bd
                                \<and> map fst bd = [''base'', ''language'', ''importance'',
                                                 ''framework'', ''complexity'', ''size'',
                                                 ''content'', ''depth_penalty'']
                                \<and> file_priority g = Some (max (sum_list (map snd bd)) 10)))"
    if f: "f \<in> set files" for f
  proof (cases "calculate_priority_score rt f target")
    case (Inl e)
    then have "score_or_default rt target f = f\<lparr>file_priority := Some 100\<rparr>"
      by (simp add: score_or_default_def)
    with f elems have "f\<lparr>file_priority := Some 100\<rparr> \<in> set prioritized" by force
    with Inl show ?thesis by simp
  next
    case (Inr g)
    then have "score_or_default rt target f = g"
      by (simp add: score_or_default_def)
    with f elems have "g \<in> set prioritized" by force
    with Inr scored_priority_is_clamped_sum [OF Inr] show ?thesis by simp
  qed
  from run len low each show ?thesis by blast
qed


text \<open>
  A batch with a record whose size is not a number (its scoring raises \<open>TypeError\<close>) and
  a record with an empty path (priority 50, no breakdown).
\<close>

theorem prioritize_files_priorities_witness:
  "''python'' \<noteq> []
   \<and> calculate_priority_score example_runtime (example_file ''b.json'' ''{}'' NotANumber) ''python''
       = Inl TypeError
   \<and> (\<exists>prioritized.
         prioritize_files example_runtime example_batch ''python'' = Inr prioritized
         \<and> length prioritized = length example_batch
         \<and> map file_path prioritized = [''main.py'', ''docs/notes.txt'', ''b.json'', []]
         \<and> map file_priority prioritized = [Some 1330, Some 305, Some 100, Some 50])"
proof -
  have given: "''python'' \<noteq> [] \<and> ''python'' = ''python''
      \<or> ''python'' = [] \<and> detect_primary_language example_runtime example_batch = Inr ''python''"
    by simp
  have raises: "calculate_priority_score example_runtime
      (example_file ''b.json'' ''{}'' NotANumber) ''python'' = Inl TypeError"
    by code_simp
  have paths: "map_sum id (map file_path) (prioritize_files example_runtime example_batch ''python'')
      = Inr [''main.py'', ''docs/notes.txt'', ''b.json'', []]"
    by code_simp
  have priorities:
    "map_sum id (map file_priority) (prioritize_files example_runtime example_batch ''python'')
      = Inr [Some 1330, Some 305, Some 100, Some 50]"
    by code_simp
  from prioritize_files_priorities [OF given] obtain prioritized where
    run: "prioritize_files example_runtime example_batch ''python'' = Inr prioritized"
    and len: "length prioritized = length example_batch"
    by blast
  from run paths priorities have
    "map file_path prioritized = [''main.py'', ''docs/notes.txt'', ''b.json'', []]"
    "map file_priority prioritized = [Some 1330, Some 305, Some 100, Some 50]"
    by simp_all
  with run len raises show ?thesis by auto
qed

subsection \<open>The language distribution\<close>

text \<open>Rounding to a number of digits stays between the multiples of that precision around it.\<close>

lemma round_half_even_bounds: "\<lfloor>x\<rfloor> \<le> round_half_even x \<and> round_half_even x \<le> \<lceil>x\<rceil>"
proof -
  have "x - of_int \<lfloor>x\<rfloor> = 0 \<or> \<lceil>x\<rceil> = \<lfloor>x\<rfloor> + 1"
    by (metis ceiling_altdef diff_self eq_iff_diff_eq_0 of_int_floor_cancel)
  then show ?thesis
    by (auto simp: round_half_even_def Let_def)
qed

lemma py_round_between:
  assumes "of_int a / 10 ^ n \<le> x" and "x \<le> of_int b / 10 ^ n"
  shows "of_int a / 10 ^ n \<le> py_round x n \<and> py_round x n \<le> of_int b / 10 ^ n"
proof -
  have pos: "(0::rat) < 10 ^ n" by simp
  from assms(1) pos have "of_int a \<le> x * 10 ^ n" by (simp add: pos_divide_le_eq)
  then have "a \<le> \<lfloor>x * 10 ^ n\<rfloor>" by (simp add: le_floor_iff)
  then have lo: "a \<le> round_half_even (x * 10 ^ n)"
    using round_half_even_bounds [of "x * 10 ^ n"] by linarith
  from assms(2) pos have "x * 10 ^ n \<le> of_int b" by (simp add: pos_le_divide_eq)
  then have "\<lceil>x * 10 ^ n\<rceil> \<le> b" by (simp add: ceiling_le_iff)
  then have hi: "round_half_even (x * 10 ^ n) \<le> b"
    using round_half_even_bounds [of "x * 10 ^ n"] by linarith
  from lo hi pos show ?thesis
    by (simp add: py_round_def divide_le_cancel)
qed

lemma py_round1_range:
  assumes "of_int a \<le> x" and "x \<le> of_int b"
  shows "of_int a \<le> py_round x 1 \<and> py_round x 1 \<le> of_int b"
  using py_round_between [of "10 * a" 1 x "10 * b"] assms by simp

text \<open>The tally loop keeps the statistics consistent with the totals.\<close>

lemma update_stats_keys:
  "map fst (update_stats lang f stats)
   = (if lang \<in> fst ` set stats then map fst stats else map fst stats @ [lang])"
  by (induction stats) (auto simp: rev_image_eqI)

lemma update_stats_distinct:
  "distinct (map fst stats) \<Longrightarrow> distinct (map fst (update_stats lang f stats))"
  by (simp add: update_stats_keys)

lemma update_stats_all:
  assumes "\<forall>entry \<in> set stats. P (snd entry)" and "P (f zero_stat)" and "\<And>s. P s \<Longrightarrow> P (f s)"
  shows "\<forall>entry \<in> set (update_stats lang f stats). P (snd entry)"
  using assms
proof (induction stats)
  case Nil
  then show ?case by simp
next
  case (Cons entry stats)
  obtain k s where entry: "entry = (k, s)" by (cases entry)
  from Cons.prems(1) entry have s: "P s" and rest: "\<forall>entry \<in> set stats. P (snd entry)"
    by simp_all
  from rest Cons.prems(2,3) have upd: "\<forall>entry \<in> set (update_stats lang f stats). P (snd entry)"
    by (rule Cons.IH)
  show ?case
  proof (cases "k = lang")
    case True
    with entry s rest Cons.prems(3) show ?thesis by simp
  next
    case False
    with entry s upd show ?thesis by simp
  qed
qed

lemma update_stats_sum:
  assumes "\<And>s. m (f s) = m s + d" and "m zero_stat = (0::int)"
  shows "sum_list (map (\<lambda>entry. m (snd entry)) (update_stats lang f stats))
         = sum_list (map (\<lambda>entry. m (snd entry)) stats) + d"
  using assms by (induction stats) auto

lemma empty_tally_ok: "tally_ok empty_tally"
  by (simp add: tally_ok_def empty_tally_def)

lemma count_file_ok:
  assumes "tally_ok t" and "0 \<le> sz"
  shows "tally_ok (count_file rt file_item sz t)"
proof -
  define lang where "lang = resolve_language rt (file_path file_item) (file_content file_item)"
  define f1 :: "language_stat \<Rightarrow> language_stat" where
    "f1 = (\<lambda>s. s\<lparr>stat_size := stat_size s + sz, stat_count := stat_count s + 1\<rparr>)"
  define f2 :: "language_stat \<Rightarrow> language_stat" where
    "f2 = (\<lambda>s. s\<lparr>stat_code_size := stat_code_size s + sz, stat_code_count := stat_code_count s + 1\<rparr>)"
  define stats1 where "stats1 = update_stats lang f1 (language_stats t)"
  define stats2 where "stats2 = update_stats lang f2 stats1"
  define t1 where
    "t1 = t\<lparr>language_stats := stats1, total_size := total_size t + sz,
             total_count := total_count t + 1\<rparr>"
  define t2 where
    "t2 = t1\<lparr>language_stats := stats2, total_code_size := total_code_size t1 + sz,
              total_code_count := total_code_count t1 + 1\<rparr>"
  have result: "count_file rt file_item sz t = t1 \<or> count_file rt file_item sz t = t2"
    by (simp add: count_file_def Let_def lang_def f1_def f2_def stats1_def stats2_def t1_def t2_def)
  have z: "stat_size zero_stat = 0" "stat_count zero_stat = 0" "stat_code_size zero_stat = 0"
    "stat_code_count zero_stat = 0"
    by (simp_all add: zero_stat_def)
  from assms(1) have
    d0: "distinct (map fst (language_stats t))"
    and p0: "\<forall>entry \<in> set (language_stats t). stat_ok (snd entry)"
    and s0: "sum_list (map (\<lambda>entry. stat_size (snd entry)) (language_stats t)) = total_size t"
      "sum_list (map (\<lambda>entry. stat_count (snd entry)) (language_stats t)) = total_count t"
      "sum_list (map (\<lambda>entry. stat_code_size (snd entry)) (language_stats t)) = total_code_size t"
      "sum_list (map (\<lambda>entry. stat_code_count (snd entry)) (language_stats t)) = total_code_count t"
    by (simp_all add: tally_ok_def)
  have d1: "distinct (map fst stats1)"
    unfolding stats1_def using d0 by (rule update_stats_distinct)
  have p1: "\<forall>entry \<in> set stats1. stat_ok (snd entry)"
    unfolding stats1_def using p0
    by (rule update_stats_all) (use assms(2) in \<open>auto simp: stat_ok_def f1_def z\<close>)
  have s1: "sum_list (map (\<lambda>entry. stat_size (snd entry)) stats1) = total_size t + sz"
    "sum_list (map (\<lambda>entry. stat_count (snd entry)) stats1) = total_count t + 1"
    "sum_list (map (\<lambda>entry. stat_code_size (snd entry)) stats1) = total_code_size t"
    "sum_list (map (\<lambda>entry. stat_code_count (snd entry)) stats1) = total_code_count t"
    unfolding stats1_def
    using update_stats_sum [of stat_size f1 sz lang "language_stats t"]
      update_stats_sum [of stat_count f1 1 lang "language_stats t"]
      update_stats_sum [of stat_code_size f1 0 lang "language_stats t"]
      update_stats_sum [of stat_code_count f1 0 lang "language_stats t"]
    by (simp_all add: f1_def z s0)
  have ok1: "tally_ok t1"
    using d1 p1 s1 by (simp add: tally_ok_def t1_def)
  have d2: "distinct (map fst stats2)"
    unfolding stats2_def using d1 by (rule update_stats_distinct)
  have p2: "\<forall>entry \<in> set stats2. stat_ok (snd entry)"
    unfolding stats2_def using p1
    by (rule update_stats_all) (use assms(2) in \<open>auto simp: stat_ok_def f2_def z\<close>)
  have s2: "sum_list (map (\<lambda>entry. stat_size (snd entry)) stats2) = total_size t + sz"
    "sum_list (map (\<lambda>entry. stat_count (snd entry)) stats2) = total_count t + 1"
    "sum_list (map (\<lambda>entry. stat_code_size (snd entry)) stats2) = total_code_size t + sz"
    "sum_list (map (\<lambda>entry. stat_code_count (snd entry)) stats2) = total_code_count t + 1"
    unfolding stats2_def
    using update_stats_sum [of stat_size f2 0 lang stats1]
      update_stats_sum [of stat_count f2 0 lang stats1]
      update_stats_sum [of stat_code_size f2 sz lang stats1]
      update_stats_sum [of stat_code_count f2 1 lang stats1]
    by (simp_all add: f2_def z s1)
  have ok2: "tally_ok t2"
    using d2 p2 s2 by (simp add: tally_ok_def t2_def t1_def)
  from result ok1 ok2 show ?thesis by auto
qed

lemma tally_files_ok:
  "tally_files rt files t = Inr t' \<Longrightarrow> tally_ok t \<Longrightarrow> tally_ok t'"
proof (induction files arbitrary: t)
  case Nil
  then show ?case by simp
next
  case (Cons file_item files)
  from Cons.prems(1) obtain sz where sz: "file_size file_item = Size sz"
    by (cases "file_size file_item") auto
  show ?case
  proof (cases "sz < 10")
    case True
    with Cons sz show ?thesis by simp
  next
    case False
    then have "tally_ok (count_file rt file_item sz t)"
      using Cons.prems(2) count_file_ok by simp
    with Cons.IH Cons.prems(1) sz False show ?thesis by simp
  qed
qed

text \<open>An entry and two distinct entries against the totals.\<close>

lemma sum_list_map_nonneg:
  "\<forall>x \<in> set xs. (0::int) \<le> m x \<Longrightarrow> 0 \<le> sum_list (map m xs)"
  by (induction xs) auto

lemma member_le_sum_list:
  assumes "\<forall>x \<in> set xs. (0::int) \<le> m x" and "a \<in> set xs"
  shows "m a \<le> sum_list (map m xs)"
  using assms
proof (induction xs)
  case Nil
  then show ?case by simp
next
  case (Cons x xs)
  have "0 \<le> sum_list (map m xs)" using Cons.prems(1) by (simp add: sum_list_map_nonneg)
  moreover have "0 \<le> m x" using Cons.prems(1) by simp
  ultimately show ?case using Cons by (cases "a = x") auto
qed

lemma two_members_le_sum_list:
  assumes "\<forall>x \<in> set xs. (0::int) \<le> m x" and "a \<in> set xs" and "b \<in> set xs" and "a \<noteq> b"
  shows "m a + m b \<le> sum_list (map m xs)"
  using assms
proof (induction xs)
  case Nil
  then show ?case by simp
next
  case (Cons x xs)
  have nonneg: "0 \<le> sum_list (map m xs)" using Cons.prems(1) by (simp add: sum_list_map_nonneg)
  consider "a = x" "b \<in> set xs" | "b = x" "a \<in> set xs" | "a \<in> set xs" "b \<in> set xs"
    using Cons.prems by auto
  then show ?case
  proof cases
    case 1
    then have "m b \<le> sum_list (map m xs)" using Cons.prems(1) member_le_sum_list [of xs m b] by simp
    with 1 show ?thesis by simp
  next
    case 2
    then have "m a \<le> sum_list (map m xs)" using Cons.prems(1) member_le_sum_list [of xs m a] by simp
    with 2 show ?thesis by simp
  next
    case 3
    then have "m a + m b \<le> sum_list (map m xs)" using Cons by simp
    moreover have "0 \<le> m x" using Cons.prems(1) by simp
    ultimately show ?thesis by simp
  qed
qed

lemma pct_range:
  assumes "0 \<le> a" and "a \<le> b"
  shows "0 \<le> pct a b \<and> pct a b \<le> 100"
proof (cases "b > 0")
  case True
  then have pos: "(0::rat) < of_int b" by simp
  have "(of_int a :: rat) \<le> of_int b" using assms(2) by simp
  then have "(of_int a :: rat) * 100 \<le> 100 * of_int b" by simp
  then have "(of_int a :: rat) * 100 / of_int b \<le> 100"
    using pos by (simp add: pos_divide_le_eq)
  moreover have "(0::rat) \<le> of_int a * 100 / of_int b" using assms(1) pos by simp
  ultimately show ?thesis using True by (simp add: pct_def)
next
  case False
  then show ?thesis by (simp add: pct_def)
qed

lemma pct_pair:
  assumes "0 \<le> a" and "0 \<le> c" and "a + c \<le> b"
  shows "pct a b + pct c b \<le> 100"
proof (cases "b > 0")
  case True
  have "pct a b + pct c b = pct (a + c) b"
    using True by (simp add: pct_def add_divide_distrib distrib_right)
  also have "\<dots> \<le> 100" using pct_range [of "a + c" b] assms by simp
  finally show ?thesis .
next
  case False
  then show ?thesis by (simp add: pct_def)
qed

lemma weighted_percentage_eq:
  "weighted_percentage t s =
     (if total_code_size t > 0 \<and> stat_code_size s > 0
      then pct (stat_size s) (total_size t) * (4 / 10) + pct (stat_count s) (total_count t) * (2 / 10)
           + pct (stat_code_size s) (total_code_size t) * (3 / 10)
           + pct (stat_code_count s) (total_code_count t) * (1 / 10)
      else pct (stat_size s) (total_size t) * (6 / 10) + pct (stat_count s) (total_count t) * (4 / 10))"
  by (simp add: weighted_percentage_def pct_def Let_def)

lemma entry_facts:
  assumes "tally_ok t" and "entry \<in> set (language_stats t)"
  shows "0 \<le> stat_size (snd entry)" "stat_size (snd entry) \<le> total_size t"
    "0 \<le> stat_count (snd entry)" "stat_count (snd entry) \<le> total_count t"
    "0 \<le> stat_code_size (snd entry)" "stat_code_size (snd entry) \<le> total_code_size t"
    "0 \<le> stat_code_count (snd entry)" "stat_code_count (snd entry) \<le> total_code_count t"
    "stat_code_count (snd entry) = 0 \<longrightarrow> stat_code_size (snd entry) = 0"
proof -
  from assms have ok: "\<forall>e \<in> set (language_stats t). stat_ok (snd e)"
    by (simp add: tally_ok_def)
  with assms(2) show "0 \<le> stat_size (snd entry)" "0 \<le> stat_count (snd entry)"
    "0 \<le> stat_code_size (snd entry)" "0 \<le> stat_code_count (snd entry)"
    "stat_code_count (snd entry) = 0 \<longrightarrow> stat_code_size (snd entry) = 0"
    by (auto simp: stat_ok_def)
  from ok have n: "\<forall>e \<in> set (language_stats t). 0 \<le> stat_size (snd e)"
    "\<forall>e \<in> set (language_stats t). 0 \<le> stat_count (snd e)"
    "\<forall>e \<in> set (language_stats t). 0 \<le> stat_code_size (snd e)"
    "\<forall>e \<in> set (language_stats t). 0 \<le> stat_code_count (snd e)"
    by (auto simp: stat_ok_def)
  from assms(1) have sums:
    "sum_list (map (\<lambda>e. stat_size (snd e)) (language_stats t)) = total_size t"
    "sum_list (map (\<lambda>e. stat_count (snd e)) (language_stats t)) = total_count t"
    "sum_list (map (\<lambda>e. stat_code_size (snd e)) (language_stats t)) = total_code_size t"
    "sum_list (map (\<lambda>e. stat_code_count (snd e)) (language_stats t)) = total_code_count t"
    by (simp_all add: tally_ok_def)
  show "stat_size (snd entry) \<le> total_size t"
    using member_le_sum_list [OF n(1) assms(2)] sums(1) by simp
  show "stat_count (snd entry) \<le> total_count t"
    using member_le_sum_list [OF n(2) assms(2)] sums(2) by simp
  show "stat_code_size (snd entry) \<le> total_code_size t"
    using member_le_sum_list [OF n(3) assms(2)] sums(3) by simp
  show "stat_code_count (snd entry) \<le> total_code_count t"
    using member_le_sum_list [OF n(4) assms(2)] sums(4) by simp
qed

lemma two_entries_facts:
  assumes "tally_ok t" and "e1 \<in> set (language_stats t)" and "e2 \<in> set (language_stats t)"
    and "e1 \<noteq> e2"
  shows "stat_size (snd e1) + stat_size (snd e2) \<le> total_size t"
    "stat_count (snd e1) + stat_count (snd e2) \<le> total_count t"
proof -
  from assms(1) have ok: "\<forall>e \<in> set (language_stats t). stat_ok (snd e)"
    by (simp add: tally_ok_def)
  then have n: "\<forall>e \<in> set (language_stats t). 0 \<le> stat_size (snd e)"
    "\<forall>e \<in> set (language_stats t). 0 \<le> stat_count (snd e)"
    by (auto simp: stat_ok_def)
  from assms(1) have sums:
    "sum_list (map (\<lambda>e. stat_size (snd e)) (language_stats t)) = total_size t"
    "sum_list (map (\<lambda>e. stat_count (snd e)) (language_stats t)) = total_count t"
    by (simp_all add: tally_ok_def)
  show "stat_size (snd e1) + stat_size (snd e2) \<le> total_size t"
    using two_members_le_sum_list [OF n(1) assms(2,3,4)] sums(1) by simp
  show "stat_count (snd e1) + stat_count (snd e2) \<le> total_count t"
    using two_members_le_sum_list [OF n(2) assms(2,3,4)] sums(2) by simp
qed

lemma weighted_percentage_range:
  assumes "tally_ok t" and "entry \<in> set (language_stats t)"
  shows "0 \<le> weighted_percentage t (snd entry) \<and> weighted_percentage t (snd entry) \<le> 100"
proof -
  note f = entry_facts [OF assms]
  have a: "0 \<le> pct (stat_size (snd entry)) (total_size t)"
    "pct (stat_size (snd entry)) (total_size t) \<le> 100"
    using pct_range [OF f(1) f(2)] by simp_all
  have b: "0 \<le> pct (stat_count (snd entry)) (total_count t)"
    "pct (stat_count (snd entry)) (total_count t) \<le> 100"
    using pct_range [OF f(3) f(4)] by simp_all
  have c: "0 \<le> pct (stat_code_size (snd entry)) (total_code_size t)"
    "pct (stat_code_size (snd entry)) (total_code_size t) \<le> 100"
    using pct_range [OF f(5) f(6)] by simp_all
  have d: "0 \<le> pct (stat_code_count (snd entry)) (total_code_count t)"
    "pct (stat_code_count (snd entry)) (total_code_count t) \<le> 100"
    using pct_range [OF f(7) f(8)] by simp_all
  from a b c d show ?thesis
    unfolding weighted_percentage_eq by (auto; linarith)
qed

lemma weighted_percentage_dominated:
  assumes ok: "tally_ok t"
    and lead: "lead \<in> set (language_stats t)" and other: "entry \<in> set (language_stats t)"
    and different: "lead \<noteq> entry"
    and no_code: "stat_code_count (snd lead) = 0"
    and dominant: "70 < weighted_percentage t (snd lead)"
  shows "weighted_percentage t (snd entry) \<le> 80"
proof -
  note ft = entry_facts [OF ok lead] and fe = entry_facts [OF ok other]
  define xt where "xt = pct (stat_size (snd lead)) (total_size t)"
  define yt where "yt = pct (stat_count (snd lead)) (total_count t)"
  define xe where "xe = pct (stat_size (snd entry)) (total_size t)"
  define ye where "ye = pct (stat_count (snd entry)) (total_count t)"
  define ce where "ce = pct (stat_code_size (snd entry)) (total_code_size t)"
  define ne where "ne = pct (stat_code_count (snd entry)) (total_code_count t)"
  have "stat_code_size (snd lead) = 0" using ft(9) no_code by simp
  then have wt: "weighted_percentage t (snd lead) = xt * (6 / 10) + yt * (4 / 10)"
    by (simp add: weighted_percentage_eq xt_def yt_def)
  have we: "weighted_percentage t (snd entry) = xe * (4 / 10) + ye * (2 / 10) + ce * (3 / 10) + ne * (1 / 10)
      \<or> weighted_percentage t (snd entry) = xe * (6 / 10) + ye * (4 / 10)"
    by (simp add: weighted_percentage_eq xe_def ye_def ce_def ne_def)
  have r: "0 \<le> xt" "xt \<le> 100" "0 \<le> yt" "yt \<le> 100" "0 \<le> xe" "0 \<le> ye" "ce \<le> 100" "ne \<le> 100"
    using pct_range [OF ft(1) ft(2)] pct_range [OF ft(3) ft(4)] pct_range [OF fe(1) fe(2)]
      pct_range [OF fe(3) fe(4)] pct_range [OF fe(5) fe(6)] pct_range [OF fe(7) fe(8)]
    by (simp_all add: xt_def yt_def xe_def ye_def ce_def ne_def)
  have s: "xt + xe \<le> 100" "yt + ye \<le> 100"
    using pct_pair [OF ft(1) fe(1)] pct_pair [OF ft(3) fe(3)]
      two_entries_facts [OF ok lead other different]
    by (simp_all add: xt_def yt_def xe_def ye_def)
  from dominant wt have d: "70 < xt * (6 / 10) + yt * (4 / 10)" by simp
  from we show ?thesis
  proof
    assume "weighted_percentage t (snd entry) = xe * (4 / 10) + ye * (2 / 10) + ce * (3 / 10) + ne * (1 / 10)"
    with r s d show ?thesis by linarith
  next
    assume "weighted_percentage t (snd entry) = xe * (6 / 10) + ye * (4 / 10)"
    with r s d show ?thesis by linarith
  qed
qed

lemma dict_set_keys: "k \<in> fst ` set d \<Longrightarrow> map fst (dict_set k v d) = map fst d"
  by (induction d) force+

lemma dict_set_map_of: "map_of (dict_set k v d) = (map_of d)(k \<mapsto> v)"
  by (induction d) auto

lemma boost_all:
  assumes "distinct ks" and "set ks \<subseteq> fst ` set d"
  shows "map fst (foldl (\<lambda>d lang. dict_set lang (dict_get d lang + b) d) d ks) = map fst d
         \<and> (\<forall>k. map_of (foldl (\<lambda>d lang. dict_set lang (dict_get d lang + b) d) d ks) k
                 = (if k \<in> set ks then map_option (\<lambda>v. v + b) (map_of d k) else map_of d k))"
  using assms
proof (induction ks arbitrary: d)
  case Nil
  then show ?case by simp
next
  case (Cons lang ks)
  define d' where "d' = dict_set lang (dict_get d lang + b) d"
  from Cons.prems(2) have present: "lang \<in> fst ` set d" by simp
  then obtain v where v: "map_of d lang = Some v"
    by (metis domD dom_map_of_conv_image_fst)
  have keys: "map fst d' = map fst d"
    unfolding d'_def using present by (rule dict_set_keys)
  have vals: "map_of d' = (map_of d)(lang \<mapsto> v + b)"
    by (simp add: d'_def dict_set_map_of dict_get_def v)
  have "set ks \<subseteq> fst ` set d'"
    using Cons.prems(2) keys by (metis list.set_map set_subset_Cons subset_trans)
  with Cons.prems(1) have IH:
    "map fst (foldl (\<lambda>d lang. dict_set lang (dict_get d lang + b) d) d' ks) = map fst d'
     \<and> (\<forall>k. map_of (foldl (\<lambda>d lang. dict_set lang (dict_get d lang + b) d) d' ks) k
             = (if k \<in> set ks then map_option (\<lambda>v. v + b) (map_of d' k) else map_of d' k))"
    using Cons.IH [of d'] by simp
  have "lang \<notin> set ks" using Cons.prems(1) by simp
  with IH keys vals v show ?case
    by (auto simp: d'_def [symmetric])
qed

lemma language_percentage_Some:
  assumes "language_percentage t entry = Some result"
  shows "fst result = fst entry
         \<and> (snd result = py_round (weighted_percentage t (snd entry)) 1
            \<or> snd result = py_round (weighted_percentage t (snd entry) * (7 / 10)) 1)"
  using assms by (auto simp: language_percentage_def Let_def split: if_splits)

lemma in_set_map_filter:
  "y \<in> set (List.map_filter g xs) \<longleftrightarrow> (\<exists>x \<in> set xs. g x = Some y)"
  by (induction xs) (auto split: option.splits)

lemma map_filter_keys_distinct:
  assumes "distinct (map fst xs)" and "\<And>x y. g x = Some y \<Longrightarrow> fst y = fst x"
  shows "distinct (map fst (List.map_filter g xs))"
  using assms
proof (induction xs)
  case Nil
  then show ?case by simp
next
  case (Cons x xs)
  have keys: "fst ` set (List.map_filter g xs) \<subseteq> fst ` set xs"
    using Cons.prems(2) by (force simp: in_set_map_filter)
  show ?case
  proof (cases "g x")
    case None
    with Cons show ?thesis by simp
  next
    case (Some y)
    then have "fst y = fst x" by (rule Cons.prems(2))
    with Cons Some keys show ?thesis by auto
  qed
qed

lemma language_percentages_from_stats:
  assumes "tally_ok t"
  shows "from_stats t (List.map_filter (language_percentage t) (language_stats t))"
proof -
  have "distinct (map fst (language_stats t))" using assms by (simp add: tally_ok_def)
  then have "distinct (map fst (List.map_filter (language_percentage t) (language_stats t)))"
    by (rule map_filter_keys_distinct) (simp add: language_percentage_Some)
  then show ?thesis
    by (auto simp: from_stats_def in_set_map_filter)
qed

lemma sort_by_percentage_from_stats:
  assumes "from_stats t d"
  shows "from_stats t (sort_by_percentage d)"
proof -
  have "distinct (map fst d)" using assms by (simp add: from_stats_def)
  then have "distinct d" and "inj_on fst (set d)" by (simp_all add: distinct_map)
  then have "distinct (map fst (sort_by_percentage d))"
    by (simp add: distinct_map sort_by_percentage_def)
  with assms show ?thesis by (simp add: from_stats_def sort_by_percentage_def)
qed

lemma from_stats_range:
  assumes "tally_ok t" and "from_stats t d" and "item \<in> set d"
  shows "0 \<le> snd item \<and> snd item \<le> 100"
proof -
  from assms(2,3) obtain entry where
    entry: "entry \<in> set (language_stats t)" "language_percentage t entry = Some item"
    by (auto simp: from_stats_def)
  from weighted_percentage_range [OF assms(1) entry(1)]
  have w: "0 \<le> weighted_percentage t (snd entry)" "weighted_percentage t (snd entry) \<le> 100"
    by simp_all
  then have "0 \<le> weighted_percentage t (snd entry) * (7 / 10)"
    "weighted_percentage t (snd entry) * (7 / 10) \<le> 100"
    by simp_all
  with w language_percentage_Some [OF entry(2)]
    py_round1_range [of 0 "weighted_percentage t (snd entry)" 100]
    py_round1_range [of 0 "weighted_percentage t (snd entry) * (7 / 10)" 100]
  show ?thesis by auto
qed

lemma rebalance_range:
  assumes ok: "tally_ok t" and fs: "from_stats t d" and item: "item \<in> set (rebalance t d)"
  shows "0 \<le> snd item \<and> snd item \<le> 100"
proof (cases d)
  case Nil
  with item show ?thesis by (simp add: rebalance_def)
next
  case (Cons head rest)
  obtain lead tp where head: "head = (lead, tp)" by (cases head)
  have d: "d = (lead, tp) # rest" using Cons head by simp
  have in_d: "\<And>x. x \<in> set d \<Longrightarrow> 0 \<le> snd x \<and> snd x \<le> 100"
    using from_stats_range [OF ok fs] by blast
  show ?thesis
  proof (cases "tp > 70 \<and> stat_code_count (stats_of t lead) = 0")
    case False
    then have "rebalance t d = d" by (auto simp: rebalance_def d)
    with item in_d show ?thesis by simp
  next
    case True
    then have tp70: "70 < tp" by simp
    have tp100: "tp \<le> 100" using in_d [of "(lead, tp)"] d by simp
    from fs d obtain lead_entry where
      lead_entry: "lead_entry \<in> set (language_stats t)"
        "language_percentage t lead_entry = Some (lead, tp)"
      by (auto simp: from_stats_def)
    have lead_key: "fst lead_entry = lead"
      using language_percentage_Some [OF lead_entry(2)] by simp
    have keys: "distinct (map fst (language_stats t))" using ok by (simp add: tally_ok_def)
    have "map_of (language_stats t) lead = Some (snd lead_entry)"
      using keys lead_entry(1) lead_key by (metis map_of_is_SomeI prod.collapse)
    then have "stats_of t lead = snd lead_entry" by (simp add: stats_of_def)
    with True have no_code: "stat_code_count (snd lead_entry) = 0" by simp
    have w_lead: "70 < weighted_percentage t (snd lead_entry)"
    proof (rule ccontr)
      assume "\<not> 70 < weighted_percentage t (snd lead_entry)"
      then have le: "weighted_percentage t (snd lead_entry) \<le> 70" by simp
      have nonneg: "0 \<le> weighted_percentage t (snd lead_entry)"
        using weighted_percentage_range [OF ok lead_entry(1)] by simp
      from le nonneg have le': "weighted_percentage t (snd lead_entry) * (7 / 10) \<le> 70" by simp
      from nonneg have nonneg': "0 \<le> weighted_percentage t (snd lead_entry) * (7 / 10)" by simp
      from language_percentage_Some [OF lead_entry(2)]
        py_round1_range [of 0 "weighted_percentage t (snd lead_entry)" 70]
        py_round1_range [of 0 "weighted_percentage t (snd lead_entry) * (7 / 10)" 70]
        le nonneg le' nonneg'
      have "tp \<le> 70" by auto
      with tp70 show False by simp
    qed
    have others: "0 \<le> snd x \<and> snd x \<le> 80" if x: "x \<in> set rest" for x
    proof -
      from fs d x obtain entry where
        entry: "entry \<in> set (language_stats t)" "language_percentage t entry = Some x"
        by (auto simp: from_stats_def)
      have "fst x \<noteq> lead"
        using fs d x by (auto simp: from_stats_def rev_image_eqI)
      then have "lead_entry \<noteq> entry"
        using language_percentage_Some [OF entry(2)] lead_key by auto
      from weighted_percentage_dominated [OF ok lead_entry(1) entry(1) this no_code w_lead]
      have le: "weighted_percentage t (snd entry) \<le> 80" .
      have nonneg: "0 \<le> weighted_percentage t (snd entry)"
        using weighted_percentage_range [OF ok entry(1)] by simp
      from le nonneg have le': "weighted_percentage t (snd entry) * (7 / 10) \<le> 80" by simp
      from nonneg have nonneg': "0 \<le> weighted_percentage t (snd entry) * (7 / 10)" by simp
      from language_percentage_Some [OF entry(2)]
        py_round1_range [of 0 "weighted_percentage t (snd entry)" 80]
        py_round1_range [of 0 "weighted_percentage t (snd entry) * (7 / 10)" 80]
        le nonneg le' nonneg'
      show ?thesis by auto
    qed
    define lowered where "lowered = (lead, tp - 20) # rest"
    define code_languages where
      "code_languages = map fst
         (filter (\<lambda>(lang, stats). stat_code_count stats > 0 \<and> lang \<in> fst ` set lowered)
            (language_stats t))"
    have redistribution: "min (tp - 50) 20 = 20" using tp70 by simp
    have result: "rebalance t d
        = (if code_languages \<noteq> []
           then foldl (\<lambda>d lang. dict_set lang (dict_get d lang + 20 / of_nat (length code_languages)) d)
                  lowered code_languages
           else lowered)"
      using True
      by (simp add: rebalance_def d redistribution Let_def lowered_def code_languages_def)
    have in_lowered: "0 \<le> snd x \<and> snd x \<le> 100" if "x \<in> set lowered" for x
    proof (cases "x = (lead, tp - 20)")
      case True
      with tp70 tp100 show ?thesis by simp
    next
      case False
      with that have "x \<in> set rest" by (simp add: lowered_def)
      from others [OF this] show ?thesis by simp
    qed
    show ?thesis
    proof (cases "code_languages = []")
      case True
      with result item in_lowered show ?thesis by simp
    next
      case False
      define b where "b = (20 :: rat) / of_nat (length code_languages)"
      define final where
        "final = foldl (\<lambda>d lang. dict_set lang (dict_get d lang + b) d) lowered code_languages"
      have final: "rebalance t d = final"
        using result False by (simp add: final_def b_def)
      have "length code_languages \<ge> 1" using False by (cases code_languages) auto
      then have len: "(1::rat) \<le> of_nat (length code_languages)" by simp
      then have b_pos: "0 \<le> b" by (simp add: b_def)
      from len have pos: "(0::rat) < of_nat (length code_languages)" by linarith
      from len have "(20::rat) \<le> 20 * of_nat (length code_languages)" by linarith
      then have b_le: "b \<le> 20"
        unfolding b_def using pos by (simp only: pos_divide_le_eq)
      have distinct_cl: "distinct code_languages"
        unfolding code_languages_def using keys by (rule distinct_map_filter)
      have subset_cl: "set code_languages \<subseteq> fst ` set lowered"
        by (force simp: code_languages_def)
      have lead_not_code: "lead \<notin> set code_languages"
      proof
        assume "lead \<in> set code_languages"
        then obtain stats where
          s: "(lead, stats) \<in> set (language_stats t)" "stat_code_count stats > 0"
          by (auto simp: code_languages_def)
        have "map_of (language_stats t) lead = Some stats"
          using keys s(1) by (rule map_of_is_SomeI)
        with \<open>map_of (language_stats t) lead = Some (snd lead_entry)\<close> no_code s(2)
        show False by simp
      qed
      from boost_all [OF distinct_cl subset_cl, of b]
      have final_keys: "map fst final = map fst lowered"
        and final_values: "\<And>k. map_of final k
            = (if k \<in> set code_languages then map_option (\<lambda>v. v + b) (map_of lowered k)
               else map_of lowered k)"
        by (simp_all add: final_def)
      have "map fst lowered = map fst d" by (simp add: lowered_def d)
      then have "distinct (map fst final)"
        using final_keys fs by (simp add: from_stats_def)
      moreover from item final have "(fst item, snd item) \<in> set final" by simp
      ultimately have found: "map_of final (fst item) = Some (snd item)"
        by (rule map_of_is_SomeI)
      show ?thesis
      proof (cases "fst item \<in> set code_languages")
        case True
        with found final_values
        have "map_option (\<lambda>v. v + b) (map_of lowered (fst item)) = Some (snd item)" by simp
        then obtain p where
          p: "map_of lowered (fst item) = Some p" "snd item = p + b"
          by (cases "map_of lowered (fst item)") auto
        from True lead_not_code have "fst item \<noteq> lead" by auto
        with p(1) have "(fst item, p) \<in> set rest"
          by (auto simp: lowered_def dest: map_of_SomeD split: if_splits)
        from others [OF this] p(2) b_pos b_le show ?thesis by simp
      next
        case False
        with found final_values have "map_of lowered (fst item) = Some (snd item)" by simp
        then have "item \<in> set lowered" by (auto dest: map_of_SomeD)
        then show ?thesis by (rule in_lowered)
      qed
    qed
  qed
qed

lemma language_distribution_range:
  assumes "tally_ok t" and "item \<in> set (language_distribution t)"
  shows "0 \<le> snd item \<and> snd item \<le> 100"
proof -
  define sorted_languages where
    "sorted_languages = rebalance t
       (sort_by_percentage (List.map_filter (language_percentage t) (language_stats t)))"
  have "from_stats t (sort_by_percentage (List.map_filter (language_percentage t) (language_stats t)))"
    using assms(1) language_percentages_from_stats sort_by_percentage_from_stats by blast
  then have r: "\<And>x. x \<in> set sorted_languages \<Longrightarrow> 0 \<le> snd x \<and> snd x \<le> 100"
    unfolding sorted_languages_def using rebalance_range [OF assms(1)] by blast
  from assms(2) obtain x where
    x: "x \<in> set sorted_languages" "item = (fst x, py_round (snd x) 1)"
    by (auto simp: language_distribution_def Let_def sort_by_percentage_def sorted_languages_def)
  from r [OF x(1)] py_round1_range [of 0 "snd x" 100] x(2) show ?thesis by simp
qed

text \<open>
  C4. Every percentage in the map \<open>detect_languages\<close> returns lies between 0 and
  100. This covers the final correction: when the leading language is above 70 percent and has
  no code file, \<open>min (top - 50) 20\<close> points, which is then always 20, are taken from it and
  shared evenly among the languages with code files that are still in the map; the leader stays
  above 50 and such a language was at most 80 before its share. Percentages are exact rationals
  here, where the program computes with floats.
\<close>

theorem detect_languages_percentages_bounded:
  assumes "detect_languages rt files = Inr languages"
  shows "\<forall>item \<in> set languages. 0 \<le> snd item \<and> snd item \<le> 100"
proof -
  from assms obtain t where
    t: "tally_files rt files empty_tally = Inr t" and l: "languages = language_distribution t"
    by (auto simp: detect_languages_def split: sum.splits)
  from t empty_tally_ok have "tally_ok t" by (rule tally_files_ok)
  with l language_distribution_range show ?thesis by blast
qed

theorem detect_languages_percentages_bounded_witness:
  "detect_languages example_runtime example_docs
     = Inr [(''markdown'', 357 / 5), (''python'', 322 / 5)]
   \<and> (0::rat) \<le> 357 / 5 \<and> (357 / 5 :: rat) \<le> 100
   \<and> (0::rat) \<le> 322 / 5 \<and> (322 / 5 :: rat) \<le> 100"
proof -
  have run: "detect_languages example_runtime example_docs
     = Inr [(''markdown'', 357 / 5), (''python'', 322 / 5)]"
    by code_simp
  from detect_languages_percentages_bounded [OF run] run show ?thesis by simp
qed

text \<open>The distribution is returned whenever every size is a number.\<close>

lemma detect_languages_returns:
  "\<forall>f \<in> set files. file_size f \<noteq> NotANumber \<Longrightarrow> \<exists>languages. detect_languages rt files = Inr languages"
proof -
  have "\<forall>f \<in> set files. file_size f \<noteq> NotANumber \<Longrightarrow> \<exists>t'. tally_files rt files t = Inr t'" for t
    by (induction files arbitrary: t) (auto split: size_value.splits)
  then show "\<forall>f \<in> set files. file_size f \<noteq> NotANumber \<Longrightarrow> \<exists>languages. detect_languages rt files = Inr languages"
    by (auto simp: detect_languages_def split: sum.splits) (metis Inl_Inr_False)
qed

end
